theory Spec2Isabelle
  imports Main "HOL-Library.AList"
begin

section \<open>Data model of the Auto Mode service\<close>

text \<open>
  The service (class \<open>AutoModeService\<close>) keeps two JavaScript \<open>Map\<close>s: the registry
  \<open>runningFeatures\<close> (feature id to execution context) and \<open>projectLoops\<close> (project path
  to loop state). A \<open>Map\<close> keeps insertion order, \<open>set\<close> on a present key replaces the
  value in place and \<open>delete\<close> removes the key: association lists with
  \<open>AList.update\<close> and \<open>AList.delete\<close>.
\<close>

datatype status = Backlog | InProgress | WaitingApproval | Verified

record feature =
  f_id :: string
  f_status :: status
  f_description :: "string option"
  f_skipTests :: bool
  f_worktreePath :: "string option"
  f_branchName :: "string option"
  f_followUp :: "(string \<times> string list) option"

text \<open>A thrown JavaScript error: its \<open>message\<close> and its \<open>stack\<close> (which may be missing).\<close>

record jserror =
  err_message :: string
  err_stack :: "string option"

text \<open>What the execution engine returns: \<open>{passes, message}\<close>.\<close>

record engine_result =
  passes :: bool
  res_message :: string

text \<open>
  The worktree manager answers \<open>{success: false, error}\<close> or \<open>{success: true, ...}\<close>.
\<close>

datatype 'a wm_result = WmFailure "string option" | WmSuccess 'a

record created_worktree =
  cw_worktreePath :: string
  cw_branchName :: string
  cw_baseBranch :: string

record merged_worktree =
  mw_mergedBranch :: string
  mw_intoBranch :: string

text \<open>The typed results \<open>{success: false, error}\<close> and \<open>{success: true, ...}\<close> of the service.\<close>

datatype 'a outcome = Failure string | Success 'a

text \<open>
  Texts built from template strings. The pieces written to a context file, and a
  transcript as the sequence of its pieces.
\<close>

datatype text_piece =
    Raw string
  | ErrorReport string string
  | AutoRetryMarker nat
  | FollowUpInstructions string

type_synonym transcript = "text_piece list"

datatype progress =
    CreatingWorktree
  | WorktreeWarning "string option"
  | WorkingInBranch string
  | AutoRetryNotice nat
  | MergingBranch

datatype event =
    FeatureStart string feature
  | Progress string progress
  | Phase string string string
  | FeatureComplete string bool string
  | ErrorEvent string string

text \<open>
  The callback \<open>sendToRenderer\<close>: \<open>None\<close> is \<open>null\<close>, \<open>Some k\<close> the callback \<open>k\<close>. A call
  of the callback is recorded like every other call, and like every other call it may
  throw.
\<close>

type_synonym sink = "nat option"

text \<open>The object \<open>createExecutionContext\<close> builds (lines 86-97).\<close>

record execution =
  abortController :: "nat option"
  query :: "nat option"
  ex_projectPath :: "string option"
  ex_worktreePath :: "string option"
  ex_branchName :: "string option"
  ex_sendToRenderer :: sink

record loop_state =
  isRunning :: bool
  interval :: "nat option"
  loop_abortController :: "nat option"
  loop_sendToRenderer :: sink
  maxConcurrency :: int

text \<open>
  Every call that leaves the service: to the feature loader, the executor, the verifier,
  the context manager, the worktree manager, the renderer callback, an abort controller
  or the timer.
\<close>

datatype call =
    LoadFeatures string
  | UpdateFeatureStatus string status string "string option" "string option"
  | UpdateFeatureWorktree string string "string option" "string option"
  | ImplementFeature feature string
  | VerifyFeatureTests feature string
  | ResumeFeatureWithContext feature string transcript
  | CommitChangesOnly feature string
  | ReadContextFile string string
  | WriteToContextFile string string text_piece
  | DeleteContextFile string string
  | IsGitRepo string
  | CreateWorktree string feature
  | RemoveWorktree string string bool
  | MergeWorktree string string bool
  | SendToRenderer nat event string
  | Abort nat
  | ClearInterval nat

text \<open>
  A trace entry is a call together with the feature ids that were in the registry when
  the call was made (what a test double of the collaborator can observe).
\<close>

type_synonym entry = "call \<times> string list"

record world =
  runningFeatures :: "(string \<times> execution) list"
  projectLoops :: "(string \<times> loop_state) list"
  trace :: "entry list"

text \<open>
  The collaborators are not part of the service: each is a parameter, an arbitrary
  function from the trace so far (ending with the call being answered) to either a thrown
  error (\<open>Inl\<close>) or the value the awaited promise resolves to. \<open>rendererCallback\<close>
  answers the calls of \<open>sendToRenderer\<close>. \<open>errorStack\<close> is the stack text the runtime gives
  to \<open>new Error(message)\<close>, \<open>typeError\<close> the error it throws when a property of
  \<open>undefined\<close> is read.
\<close>

record env =
  loadFeatures :: "entry list \<Rightarrow> jserror + feature list"
  updateFeatureStatus :: "entry list \<Rightarrow> jserror + unit"
  updateFeatureWorktree :: "entry list \<Rightarrow> jserror + unit"
  implementFeature :: "entry list \<Rightarrow> jserror + engine_result"
  verifyFeatureTests :: "entry list \<Rightarrow> jserror + engine_result"
  resumeFeatureWithContext :: "entry list \<Rightarrow> jserror + engine_result"
  commitChangesOnly :: "entry list \<Rightarrow> jserror + unit"
  readContextFile :: "entry list \<Rightarrow> jserror + transcript"
  writeToContextFile :: "entry list \<Rightarrow> jserror + unit"
  deleteContextFile :: "entry list \<Rightarrow> jserror + unit"
  isGitRepo :: "entry list \<Rightarrow> jserror + bool"
  createWorktree :: "entry list \<Rightarrow> jserror + created_worktree wm_result"
  removeWorktree :: "entry list \<Rightarrow> jserror + string wm_result"
  mergeWorktree :: "entry list \<Rightarrow> jserror + merged_worktree wm_result"
  rendererCallback :: "entry list \<Rightarrow> jserror + unit"
  errorStack :: "string \<Rightarrow> string option"
  typeError :: jserror

section \<open>Computations: state, exceptions, try/catch/finally\<close>

text \<open>
  An \<open>async\<close> method is a function from the state to a result and the new state; the
  result is \<open>Inl\<close> of the error when the promise rejects. The service runs on one event
  loop, so a method runs alone between two awaits; here each method is taken from its call
  to its end without another method of the service changing the registry in between. The
  two places where the source itself hands control back before the work is done
  (startFeatureAsync is never awaited, followUpFeature returns while its work goes on) are
  split there: the part that runs at the call goes up to the first real suspension and
  includes the collaborator call made there, whose answer the promise keeps; the part that
  runs later goes on from that answer. Writing to the console is left out.
\<close>

type_synonym 'a io = "world \<Rightarrow> (jserror + 'a) \<times> world"

definition ret :: "'a \<Rightarrow> 'a io" where
  "ret x = (\<lambda>w. (Inr x, w))"

definition throw :: "jserror \<Rightarrow> 'a io" where
  "throw e = (\<lambda>w. (Inl e, w))"

definition bnd :: "'a io \<Rightarrow> ('a \<Rightarrow> 'b io) \<Rightarrow> 'b io" where
  "bnd m f = (\<lambda>w. case m w of (Inl e, w') \<Rightarrow> (Inl e, w') | (Inr x, w') \<Rightarrow> f x w')"

definition try_catch :: "'a io \<Rightarrow> (jserror \<Rightarrow> 'a io) \<Rightarrow> 'a io" where
  "try_catch m h = (\<lambda>w. case m w of (Inl e, w') \<Rightarrow> h e w' | (Inr x, w') \<Rightarrow> (Inr x, w'))"

text \<open>The \<open>finally\<close> blocks of the service only delete a registry key: a state update.\<close>

definition try_finally :: "'a io \<Rightarrow> (world \<Rightarrow> world) \<Rightarrow> 'a io" where
  "try_finally m fin = (\<lambda>w. case m w of (r, w') \<Rightarrow> (r, fin w'))"

definition new_Error :: "env \<Rightarrow> string \<Rightarrow> jserror" where
  "new_Error env msg = \<lparr>err_message = msg, err_stack = errorStack env msg\<rparr>"

definition active_ids :: "world \<Rightarrow> string list" where
  "active_ids w = map fst (runningFeatures w)"

definition record_call :: "call \<Rightarrow> world \<Rightarrow> world" where
  "record_call c w = w\<lparr>trace := trace w @ [(c, active_ids w)]\<rparr>"

definition await :: "call \<Rightarrow> (entry list \<Rightarrow> jserror + 'a) \<Rightarrow> 'a io" where
  "await c answer = (\<lambda>w. (answer (trace (record_call c w)), record_call c w))"

text \<open>To go on from the answer of a call that was made earlier.\<close>

definition resume_with :: "jserror + 'a \<Rightarrow> 'a io" where
  "resume_with answer = (\<lambda>w. (answer, w))"

definition calls :: "world \<Rightarrow> call list" where
  "calls w = map fst (trace w)"

section \<open>The registry and small helpers (lines 34-109)\<close>

definition has :: "('k \<times> 'v) list \<Rightarrow> 'k \<Rightarrow> bool" where
  "has m k = (map_of m k \<noteq> None)"

definition getRunningCountForProject :: "world \<Rightarrow> string \<Rightarrow> nat" where
  "getRunningCountForProject w projectPath =
     length (filter (\<lambda>(featureId, ex). ex_projectPath ex = Some projectPath) (runningFeatures w))"

definition getRunningFeaturesForProject :: "world \<Rightarrow> string \<Rightarrow> string list" where
  "getRunningFeaturesForProject w projectPath =
     map fst (filter (\<lambda>(featureId, ex). ex_projectPath ex = Some projectPath) (runningFeatures w))"

definition createExecutionContext :: execution where
  "createExecutionContext =
     \<lparr>abortController = None, query = None, ex_projectPath = None,
      ex_worktreePath = None, ex_branchName = None, ex_sendToRenderer = None\<rparr>"

text \<open>
  The three statements every registering entry point runs:
  \<open>execution = createExecutionContext(id); execution.projectPath = ...;
  execution.sendToRenderer = ...; runningFeatures.set(id, execution)\<close>.
\<close>

definition register :: "string \<Rightarrow> string \<Rightarrow> sink \<Rightarrow> world \<Rightarrow> world" where
  "register featureId projectPath sendToRenderer w =
     w\<lparr>runningFeatures :=
         AList.update featureId
           (createExecutionContext\<lparr>ex_projectPath := Some projectPath,
                                    ex_sendToRenderer := sendToRenderer\<rparr>)
           (runningFeatures w)\<rparr>"

definition release :: "string \<Rightarrow> world \<Rightarrow> world" where
  "release featureId w = w\<lparr>runningFeatures := AList.delete featureId (runningFeatures w)\<rparr>"

text \<open>emitEvent, lines 102-109: the callback is called with no guard around it.\<close>

definition emitEvent :: "env \<Rightarrow> string \<Rightarrow> sink \<Rightarrow> event \<Rightarrow> unit io" where
  "emitEvent env projectPath sendToRenderer ev =
     (case sendToRenderer of
        None \<Rightarrow> ret ()
      | Some k \<Rightarrow> await (SendToRenderer k ev projectPath) (rendererCallback env))"

section \<open>stop and stopFeature\<close>

text \<open>\<open>stop({projectPath})\<close>, lines 204-236; the result is \<open>runningFeatures\<close> of \<open>{success: true, runningFeatures}\<close>.\<close>

definition stop :: "string \<Rightarrow> nat io" where
  "stop projectPath =
     (\<lambda>w. case map_of (projectLoops w) projectPath of
        None \<Rightarrow> (Inr 0, w)
      | Some projectState \<Rightarrow>
          let w1 = (case interval projectState of
                      None \<Rightarrow> w
                    | Some t \<Rightarrow> record_call (ClearInterval t) w);
              w2 = (case loop_abortController projectState of
                      None \<Rightarrow> w1
                    | Some a \<Rightarrow> record_call (Abort a) w1);
              w3 = w2\<lparr>projectLoops :=
                       AList.update projectPath
                         (projectState\<lparr>isRunning := False, interval := None,
                                        loop_abortController := None\<rparr>)
                         (projectLoops w2)\<rparr>
          in (Inr (getRunningCountForProject w3 projectPath), w3))"

text \<open>\<open>stopFeature({featureId})\<close>, lines 943-959.\<close>

definition stopFeature :: "string \<Rightarrow> unit outcome io" where
  "stopFeature featureId =
     (\<lambda>w. if \<not> has (runningFeatures w) featureId
           then (Inr (Failure (''Feature '' @ featureId @ '' is not running'')), w)
           else
             let w1 = (case map_of (runningFeatures w) featureId of
                         None \<Rightarrow> w
                       | Some ex \<Rightarrow>
                           (case abortController ex of
                              None \<Rightarrow> w
                            | Some a \<Rightarrow> record_call (Abort a) w))
             in (Inr (Success ()), release featureId w1))"

section \<open>Worktree setup (lines 119-172)\<close>

record worktree_setup =
  useWorktree :: bool
  workPath :: string
  ws_branchName :: "string option"
  ws_baseBranch :: "string option"

definition not_isolated :: "string \<Rightarrow> worktree_setup" where
  "not_isolated projectPath =
     \<lparr>useWorktree = False, workPath = projectPath, ws_branchName = None, ws_baseBranch = None\<rparr>"

text \<open>
  setupWorktreeForFeature from the answer of isGitRepo on (lines 128-171), then the whole
  function.
\<close>

definition setupWorktreeForFeature_afterGit ::
  "env \<Rightarrow> feature \<Rightarrow> string \<Rightarrow> sink \<Rightarrow> bool \<Rightarrow> worktree_setup io" where
  "setupWorktreeForFeature_afterGit env feature projectPath sendToRenderer isGit =
     (if \<not> isGit then ret (not_isolated projectPath)
      else
        bnd (emitEvent env projectPath sendToRenderer
               (Progress (f_id feature) CreatingWorktree)) (\<lambda>_.
        bnd (await (CreateWorktree projectPath feature) (createWorktree env)) (\<lambda>result.
        case result of
          WmFailure err \<Rightarrow>
            bnd (emitEvent env projectPath sendToRenderer
                   (Progress (f_id feature) (WorktreeWarning err))) (\<lambda>_.
            ret (not_isolated projectPath))
        | WmSuccess r \<Rightarrow>
            bnd (emitEvent env projectPath sendToRenderer
                   (Progress (f_id feature) (WorkingInBranch (cw_branchName r)))) (\<lambda>_.
            bnd (await (UpdateFeatureWorktree (f_id feature) projectPath
                          (Some (cw_worktreePath r)) (Some (cw_branchName r)))
                       (updateFeatureWorktree env)) (\<lambda>_.
            ret \<lparr>useWorktree = True, workPath = cw_worktreePath r,
                 ws_branchName = Some (cw_branchName r),
                 ws_baseBranch = Some (cw_baseBranch r)\<rparr>)))))"

definition setupWorktreeForFeature ::
  "env \<Rightarrow> feature \<Rightarrow> string \<Rightarrow> sink \<Rightarrow> bool \<Rightarrow> worktree_setup io" where
  "setupWorktreeForFeature env feature projectPath sendToRenderer useWorktreesEnabled =
     (if \<not> useWorktreesEnabled then ret (not_isolated projectPath)
      else
        bnd (await (IsGitRepo projectPath) (isGitRepo env))
          (setupWorktreeForFeature_afterGit env feature projectPath sendToRenderer))"

section \<open>The feature entry points\<close>

text \<open>
  \<open>execution.worktreePath = worktreeSetup.workPath; execution.branchName = ...\<close>: the
  execution object is the one stored in the registry.
\<close>

definition set_execution_worktree :: "string \<Rightarrow> worktree_setup \<Rightarrow> unit io" where
  "set_execution_worktree featureId worktreeSetup =
     (\<lambda>w. (Inr (),
            w\<lparr>runningFeatures :=
                AList.map_entry featureId
                  (\<lambda>ex. ex\<lparr>ex_worktreePath := Some (workPath worktreeSetup),
                            ex_branchName := ws_branchName worktreeSetup\<rparr>)
                  (runningFeatures w)\<rparr>))"

definition already_running :: "env \<Rightarrow> string \<Rightarrow> jserror" where
  "already_running env featureId = new_Error env (''Feature '' @ featureId @ '' is already running'')"

definition not_found :: "env \<Rightarrow> string \<Rightarrow> jserror" where
  "not_found env featureId = new_Error env (''Feature '' @ featureId @ '' not found'')"

definition stack_text :: "jserror \<Rightarrow> string" where
  "stack_text error = (case err_stack error of None \<Rightarrow> [] | Some s \<Rightarrow> s)"

text \<open>
  The statements that open the \<open>catch\<close> block of runFeature (lines 377-405), repeated
  verbatim in verifyFeature (481-509), resumeFeature (648-676), startFeatureAsync (845-873)
  and runFollowUpWork (1088-1116): write the error to the context file, set the status to
  waiting_approval with the error message (a failure of either is logged and dropped), emit
  auto_mode_error.
\<close>

definition reportError_afterWrite ::
  "env \<Rightarrow> string \<Rightarrow> string \<Rightarrow> sink \<Rightarrow> jserror \<Rightarrow> unit io" where
  "reportError_afterWrite env projectPath featureId sendToRenderer error =
     bnd (try_catch
            (await (UpdateFeatureStatus featureId WaitingApproval projectPath None
                      (Some (err_message error)))
                   (updateFeatureStatus env))
            (\<lambda>statusError. ret ())) (\<lambda>_.
     emitEvent env projectPath sendToRenderer (ErrorEvent (err_message error) featureId))"

definition reportError :: "env \<Rightarrow> string \<Rightarrow> string \<Rightarrow> sink \<Rightarrow> jserror \<Rightarrow> unit io" where
  "reportError env projectPath featureId sendToRenderer error =
     bnd (try_catch
            (await (WriteToContextFile projectPath featureId
                      (ErrorReport (err_message error) (stack_text error)))
                   (writeToContextFile env))
            (\<lambda>contextError. ret ())) (\<lambda>_.
     reportError_afterWrite env projectPath featureId sendToRenderer error)"

text \<open>runFeature, lines 291-411: the \<open>try\<close> block, then the whole function.\<close>

definition runFeature_try :: "env \<Rightarrow> string \<Rightarrow> string \<Rightarrow> sink \<Rightarrow> bool \<Rightarrow> bool io" where
  "runFeature_try env projectPath featureId sendToRenderer useWorktrees =
     bnd (await (LoadFeatures projectPath) (loadFeatures env)) (\<lambda>features.
     case find (\<lambda>f. f_id f = featureId) features of
       None \<Rightarrow> throw (not_found env featureId)
     | Some feature \<Rightarrow>
         bnd (setupWorktreeForFeature env feature projectPath sendToRenderer useWorktrees)
           (\<lambda>worktreeSetup.
         bnd (set_execution_worktree featureId worktreeSetup) (\<lambda>_.
         bnd (await (UpdateFeatureStatus featureId InProgress projectPath None None)
                    (updateFeatureStatus env)) (\<lambda>_.
         bnd (emitEvent env projectPath sendToRenderer
                (FeatureStart (f_id feature)
                   (feature\<lparr>f_worktreePath := Some (workPath worktreeSetup),
                            f_branchName := ws_branchName worktreeSetup\<rparr>))) (\<lambda>_.
         bnd (await (ImplementFeature feature (workPath worktreeSetup))
                    (implementFeature env)) (\<lambda>result.
         bnd (await (UpdateFeatureStatus (f_id feature)
                       (if passes result
                        then (if f_skipTests feature then WaitingApproval else Verified)
                        else WaitingApproval)
                       projectPath None None)
                    (updateFeatureStatus env)) (\<lambda>_.
         bnd (emitEvent env projectPath sendToRenderer
                (FeatureComplete (f_id feature) (passes result) (res_message result))) (\<lambda>_.
         ret (passes result)))))))))"

definition runFeature :: "env \<Rightarrow> string \<Rightarrow> string \<Rightarrow> sink \<Rightarrow> bool \<Rightarrow> bool io" where
  "runFeature env projectPath featureId sendToRenderer useWorktrees =
     (\<lambda>w. if has (runningFeatures w) featureId then (Inl (already_running env featureId), w)
           else
             try_finally
               (try_catch
                  (runFeature_try env projectPath featureId sendToRenderer useWorktrees)
                  (\<lambda>error. bnd (reportError env projectPath featureId sendToRenderer error)
                              (\<lambda>_. throw error)))
               (release featureId)
               (register featureId projectPath sendToRenderer w))"

text \<open>verifyFeature, lines 416-515.\<close>

definition verifyFeature_try :: "env \<Rightarrow> string \<Rightarrow> string \<Rightarrow> sink \<Rightarrow> bool io" where
  "verifyFeature_try env projectPath featureId sendToRenderer =
     bnd (await (LoadFeatures projectPath) (loadFeatures env)) (\<lambda>features.
     case find (\<lambda>f. f_id f = featureId) features of
       None \<Rightarrow> throw (not_found env featureId)
     | Some feature \<Rightarrow>
         bnd (emitEvent env projectPath sendToRenderer (FeatureStart (f_id feature) feature)) (\<lambda>_.
         bnd (await (VerifyFeatureTests feature projectPath) (verifyFeatureTests env)) (\<lambda>result.
         bnd (await (UpdateFeatureStatus featureId
                       (if passes result then Verified else InProgress) projectPath None None)
                    (updateFeatureStatus env)) (\<lambda>_.
         bnd (emitEvent env projectPath sendToRenderer
                (FeatureComplete (f_id feature) (passes result) (res_message result))) (\<lambda>_.
         ret (passes result))))))"

definition verifyFeature :: "env \<Rightarrow> string \<Rightarrow> string \<Rightarrow> sink \<Rightarrow> bool io" where
  "verifyFeature env projectPath featureId sendToRenderer =
     (\<lambda>w. if has (runningFeatures w) featureId then (Inl (already_running env featureId), w)
           else
             try_finally
               (try_catch
                  (verifyFeature_try env projectPath featureId sendToRenderer)
                  (\<lambda>error. bnd (reportError env projectPath featureId sendToRenderer error)
                              (\<lambda>_. throw error)))
               (release featureId)
               (register featureId projectPath sendToRenderer w))"

text \<open>
  resumeFeature, lines 520-682. The \<open>while\<close> loop of lines 576-617 with its variables
  \<open>attempts\<close> and \<open>finalResult\<close>; it stops after \<open>maxAttempts\<close> retries.
\<close>

definition maxAttempts :: nat where
  "maxAttempts = 3"

function resumeRetryLoop ::
  "env \<Rightarrow> string \<Rightarrow> string \<Rightarrow> sink \<Rightarrow> feature \<Rightarrow> nat \<Rightarrow> engine_result \<Rightarrow> engine_result io" where
  "resumeRetryLoop env projectPath featureId sendToRenderer feature attempts finalResult w =
     (if \<not> passes finalResult \<and> attempts < maxAttempts then
        (case await (LoadFeatures projectPath) (loadFeatures env) w of
           (Inl e, w1) \<Rightarrow> (Inl e, w1)
         | (Inr updatedFeatures, w1) \<Rightarrow>
             (case find (\<lambda>f. f_id f = featureId) updatedFeatures of
                None \<Rightarrow> (Inr finalResult, w1)
              | Some updatedFeature \<Rightarrow>
                  if f_status updatedFeature = InProgress then
                    (case
                       bnd (await (WriteToContextFile projectPath featureId
                                     (AutoRetryMarker (attempts + 1)))
                                  (writeToContextFile env)) (\<lambda>_.
                       bnd (emitEvent env projectPath sendToRenderer
                              (Progress (f_id feature) (AutoRetryNotice (attempts + 1)))) (\<lambda>_.
                       bnd (await (ReadContextFile projectPath featureId)
                                  (readContextFile env)) (\<lambda>retryContext.
                       await (ResumeFeatureWithContext feature projectPath retryContext)
                             (resumeFeatureWithContext env)))) w1
                     of
                       (Inl e, w2) \<Rightarrow> (Inl e, w2)
                     | (Inr r, w2) \<Rightarrow>
                         resumeRetryLoop env projectPath featureId sendToRenderer feature
                           (attempts + 1) r w2)
                  else (Inr finalResult, w1)))
      else (Inr finalResult, w))"
  by pat_completeness auto
termination
  by (relation "measure (\<lambda>(env, projectPath, featureId, sendToRenderer, feature, attempts,
                           finalResult, w). maxAttempts - attempts)") auto

declare resumeRetryLoop.simps [simp del]

definition resumeFeature_try :: "env \<Rightarrow> string \<Rightarrow> string \<Rightarrow> sink \<Rightarrow> bool io" where
  "resumeFeature_try env projectPath featureId sendToRenderer =
     bnd (await (LoadFeatures projectPath) (loadFeatures env)) (\<lambda>features.
     case find (\<lambda>f. f_id f = featureId) features of
       None \<Rightarrow> throw (not_found env featureId)
     | Some feature \<Rightarrow>
         bnd (emitEvent env projectPath sendToRenderer (FeatureStart (f_id feature) feature)) (\<lambda>_.
         bnd (await (ReadContextFile projectPath featureId) (readContextFile env))
           (\<lambda>previousContext.
         bnd (await (ResumeFeatureWithContext feature projectPath previousContext)
                    (resumeFeatureWithContext env)) (\<lambda>result.
         bnd (resumeRetryLoop env projectPath featureId sendToRenderer feature 0 result)
           (\<lambda>finalResult.
         bnd (await (UpdateFeatureStatus featureId
                       (if passes finalResult
                        then (if f_skipTests feature then WaitingApproval else Verified)
                        else WaitingApproval)
                       projectPath None None)
                    (updateFeatureStatus env)) (\<lambda>_.
         bnd (emitEvent env projectPath sendToRenderer
                (FeatureComplete (f_id feature) (passes finalResult)
                   (res_message finalResult))) (\<lambda>_.
         ret (passes finalResult))))))))"

definition resumeFeature :: "env \<Rightarrow> string \<Rightarrow> string \<Rightarrow> sink \<Rightarrow> bool io" where
  "resumeFeature env projectPath featureId sendToRenderer =
     (\<lambda>w. if has (runningFeatures w) featureId then (Inl (already_running env featureId), w)
           else
             try_finally
               (try_catch
                  (resumeFeature_try env projectPath featureId sendToRenderer)
                  (\<lambda>error. bnd (reportError env projectPath featureId sendToRenderer error)
                              (\<lambda>_. throw error)))
               (release featureId)
               (register featureId projectPath sendToRenderer w))"

text \<open>
  startFeatureAsync, lines 766-878. \<open>startFeatureAsync_try\<close> is the \<open>try\<close> block: its first
  statement reads \<open>feature.description.slice(0, 50)\<close>, which throws when the feature has no
  description, and only then is the execution registered. The block yields the engine's
  result, which the source keeps in the local \<open>result\<close> and does not return.
  \<open>startFeatureAsync\<close> is the whole function, taken from its call to its end.
\<close>

definition startFeatureAsync_afterSetup ::
  "env \<Rightarrow> feature \<Rightarrow> string \<Rightarrow> sink \<Rightarrow> worktree_setup \<Rightarrow> engine_result io" where
  "startFeatureAsync_afterSetup env feature projectPath sendToRenderer worktreeSetup =
     bnd (set_execution_worktree (f_id feature) worktreeSetup) (\<lambda>_.
     bnd (await (UpdateFeatureStatus (f_id feature) InProgress projectPath None None)
                (updateFeatureStatus env)) (\<lambda>_.
     bnd (emitEvent env projectPath sendToRenderer
            (FeatureStart (f_id feature)
               (feature\<lparr>f_worktreePath := Some (workPath worktreeSetup),
                        f_branchName := ws_branchName worktreeSetup\<rparr>))) (\<lambda>_.
     bnd (await (ImplementFeature feature (workPath worktreeSetup))
                (implementFeature env)) (\<lambda>result.
     bnd (await (UpdateFeatureStatus (f_id feature)
                   (if passes result
                    then (if f_skipTests feature then WaitingApproval else Verified)
                    else WaitingApproval)
                   projectPath None None)
                (updateFeatureStatus env)) (\<lambda>_.
     bnd (emitEvent env projectPath sendToRenderer
            (FeatureComplete (f_id feature) (passes result) (res_message result))) (\<lambda>_.
     ret result))))))"

definition startFeatureAsync_try ::
  "env \<Rightarrow> feature \<Rightarrow> string \<Rightarrow> sink \<Rightarrow> bool \<Rightarrow> engine_result io" where
  "startFeatureAsync_try env feature projectPath sendToRenderer useWorktrees =
     (case f_description feature of
        None \<Rightarrow> throw (typeError env)
      | Some description \<Rightarrow>
          bnd (\<lambda>w. (Inr (), register (f_id feature) projectPath sendToRenderer w)) (\<lambda>_.
          bnd (setupWorktreeForFeature env feature projectPath sendToRenderer useWorktrees)
            (startFeatureAsync_afterSetup env feature projectPath sendToRenderer)))"

definition startFeatureAsync ::
  "env \<Rightarrow> feature \<Rightarrow> string \<Rightarrow> sink \<Rightarrow> bool \<Rightarrow> unit io" where
  "startFeatureAsync env feature projectPath sendToRenderer useWorktrees =
     (\<lambda>w. if has (runningFeatures w) (f_id feature) then (Inr (), w)
           else
             try_finally
               (try_catch
                  (bnd (startFeatureAsync_try env feature projectPath sendToRenderer
                          useWorktrees)
                     (\<lambda>result. ret ()))
                  (\<lambda>error. reportError env projectPath (f_id feature) sendToRenderer error))
               (release (f_id feature))
               w)"

text \<open>
  The promise of a call that nobody awaits. An \<open>async\<close> function runs, when it is called,
  up to its first real suspension, and the collaborator call whose promise it awaits there
  has been made by then. The promise says where the function is suspended:
  \<^item> \<open>Settled\<close>: nowhere, the function has returned;
  \<^item> \<open>StartSetupDone\<close>: startFeatureAsync, registered, at line 787 with the worktree setup
    already decided (worktrees are off);
  \<^item> \<open>StartAwaitingGit\<close>: startFeatureAsync, registered, inside setupWorktreeForFeature at
    line 127, with the answer of isGitRepo;
  \<^item> \<open>StartReporting\<close>: startFeatureAsync, not registered, in the \<open>catch\<close> block at line 847
    with the error that was thrown, the context file write under way;
  \<^item> \<open>FollowUpWork\<close>: runFollowUpWork, registered by followUpFeature, at line 1018 with the
    answer of loadFeatures.
\<close>

datatype promise =
    Settled
  | StartSetupDone feature string sink
  | StartAwaitingGit feature string sink "jserror + bool"
  | StartReporting feature string sink jserror
  | FollowUpWork string string string "string list" sink "jserror + feature list"

text \<open>What the call of startFeatureAsync does before it hands control back.\<close>

definition startFeatureAsync_call ::
  "env \<Rightarrow> feature \<Rightarrow> string \<Rightarrow> sink \<Rightarrow> bool \<Rightarrow> world \<Rightarrow> promise \<times> world" where
  "startFeatureAsync_call env feature projectPath sendToRenderer useWorktrees w =
     (if has (runningFeatures w) (f_id feature) then (Settled, w)
      else
        (case f_description feature of
           None \<Rightarrow>
             (StartReporting feature projectPath sendToRenderer (typeError env),
              record_call
                (WriteToContextFile projectPath (f_id feature)
                   (ErrorReport (err_message (typeError env)) (stack_text (typeError env))))
                w)
         | Some description \<Rightarrow>
             let w1 = register (f_id feature) projectPath sendToRenderer w
             in if \<not> useWorktrees
                then (StartSetupDone feature projectPath sendToRenderer, w1)
                else
                  (StartAwaitingGit feature projectPath sendToRenderer
                     (isGitRepo env (trace (record_call (IsGitRepo projectPath) w1))),
                   record_call (IsGitRepo projectPath) w1)))"

text \<open>
  checkAndStartFeaturesForProject, lines 709-757. It returns the features on which it
  called startFeatureAsync, each with the promise it did not await.
\<close>

fun start_each ::
  "env \<Rightarrow> feature list \<Rightarrow> string \<Rightarrow> sink \<Rightarrow> world \<Rightarrow> (feature \<times> promise) list \<times> world" where
  "start_each env [] projectPath sendToRenderer w = ([], w)"
| "start_each env (feature # rest) projectPath sendToRenderer w =
     (case startFeatureAsync_call env feature projectPath sendToRenderer False w of
        (p, w1) \<Rightarrow>
          (case start_each env rest projectPath sendToRenderer w1 of
             (ps, w2) \<Rightarrow> ((feature, p) # ps, w2)))"

definition checkAndStartFeaturesForProject ::
  "env \<Rightarrow> string \<Rightarrow> world \<Rightarrow> (feature \<times> promise) list \<times> world" where
  "checkAndStartFeaturesForProject env projectPath w =
     (case map_of (projectLoops w) projectPath of
        None \<Rightarrow> ([], w)
      | Some projectState \<Rightarrow>
          if \<not> isRunning projectState then ([], w)
          else
            let currentRunningCount = getRunningCountForProject w projectPath;
                availableSlots = maxConcurrency projectState - int currentRunningCount
            in if availableSlots \<le> 0 then ([], w)
               else
                 (case await (LoadFeatures projectPath) (loadFeatures env) w of
                    (Inl error, w1) \<Rightarrow> ([], w1)
                  | (Inr features, w1) \<Rightarrow>
                      let backlogFeatures = filter (\<lambda>f. f_status f = Backlog) features
                      in if length backlogFeatures = 0 then ([], w1)
                         else start_each env (take (nat availableSlots) backlogFeatures)
                                projectPath (loop_sendToRenderer projectState) w1))"

text \<open>
  followUpFeature, lines 965-1003, and runFollowUpWork, lines 1008-1120.
  \<open>runFollowUpWork_try\<close> is the \<open>try\<close> block and \<open>runFollowUpWork\<close> the whole function, taken
  from its call to its end. followUpFeature registers the execution and calls
  runFollowUpWork without awaiting it: runFollowUpWork has called loadFeatures when
  followUpFeature returns.
\<close>

definition runFollowUpWork_afterLoad ::
  "env \<Rightarrow> string \<Rightarrow> string \<Rightarrow> string \<Rightarrow> string list \<Rightarrow> sink \<Rightarrow> feature list \<Rightarrow>
   engine_result io" where
  "runFollowUpWork_afterLoad env projectPath featureId prompt imagePaths sendToRenderer features =
     (case find (\<lambda>f. f_id f = featureId) features of
       None \<Rightarrow> throw (not_found env featureId)
     | Some feature \<Rightarrow>
         bnd (await (UpdateFeatureStatus featureId InProgress projectPath None None)
                    (updateFeatureStatus env)) (\<lambda>_.
         bnd (emitEvent env projectPath sendToRenderer (FeatureStart (f_id feature) feature)) (\<lambda>_.
         bnd (await (ReadContextFile projectPath featureId) (readContextFile env))
           (\<lambda>previousContext.
         bnd (await (WriteToContextFile projectPath featureId (FollowUpInstructions prompt))
                    (writeToContextFile env)) (\<lambda>_.
         bnd (await (ResumeFeatureWithContext
                       (feature\<lparr>f_followUp := Some (prompt, imagePaths)\<rparr>) projectPath
                       (previousContext @ [FollowUpInstructions prompt]))
                    (resumeFeatureWithContext env)) (\<lambda>result.
         bnd (await (UpdateFeatureStatus (f_id feature)
                       (if passes result
                        then (if f_skipTests feature then WaitingApproval else Verified)
                        else WaitingApproval)
                       projectPath None None)
                    (updateFeatureStatus env)) (\<lambda>_.
         bnd (emitEvent env projectPath sendToRenderer
                (FeatureComplete (f_id feature) (passes result) (res_message result))) (\<lambda>_.
         ret result))))))))"

definition runFollowUpWork_try ::
  "env \<Rightarrow> string \<Rightarrow> string \<Rightarrow> string \<Rightarrow> string list \<Rightarrow> sink \<Rightarrow> engine_result io" where
  "runFollowUpWork_try env projectPath featureId prompt imagePaths sendToRenderer =
     bnd (await (LoadFeatures projectPath) (loadFeatures env))
       (runFollowUpWork_afterLoad env projectPath featureId prompt imagePaths sendToRenderer)"

definition runFollowUpWork ::
  "env \<Rightarrow> string \<Rightarrow> string \<Rightarrow> string \<Rightarrow> string list \<Rightarrow> sink \<Rightarrow> unit io" where
  "runFollowUpWork env projectPath featureId prompt imagePaths sendToRenderer =
     try_finally
       (try_catch
          (bnd (runFollowUpWork_try env projectPath featureId prompt imagePaths sendToRenderer)
             (\<lambda>result. ret ()))
          (\<lambda>error. reportError env projectPath featureId sendToRenderer error))
       (release featureId)"

definition followUpFeature ::
  "env \<Rightarrow> string \<Rightarrow> string \<Rightarrow> string \<Rightarrow> string list \<Rightarrow> sink \<Rightarrow> promise io" where
  "followUpFeature env projectPath featureId prompt imagePaths sendToRenderer =
     (\<lambda>w. if has (runningFeatures w) featureId then (Inl (already_running env featureId), w)
           else
             let w1 = register featureId projectPath sendToRenderer w
             in (Inr (FollowUpWork projectPath featureId prompt imagePaths sendToRenderer
                        (loadFeatures env (trace (record_call (LoadFeatures projectPath) w1)))),
                 record_call (LoadFeatures projectPath) w1))"

text \<open>
  followUpFeature and the work it started, taken together from the call to the end of the
  work, with the \<open>.catch\<close> handler of lines 996-999 attached.
\<close>

definition followUp_background ::
  "env \<Rightarrow> string \<Rightarrow> string \<Rightarrow> string \<Rightarrow> string list \<Rightarrow> sink \<Rightarrow> unit io" where
  "followUp_background env projectPath featureId prompt imagePaths sendToRenderer =
     try_catch
       (runFollowUpWork env projectPath featureId prompt imagePaths sendToRenderer)
       (\<lambda>error w. (Inr (), release featureId w))"

text \<open>
  The rest of a promise: what runs, later, from the point where the function is suspended
  to its end.
\<close>

fun settle :: "env \<Rightarrow> promise \<Rightarrow> unit io" where
  "settle env Settled = ret ()"
| "settle env (StartSetupDone feature projectPath sendToRenderer) =
     try_finally
       (try_catch
          (bnd (startFeatureAsync_afterSetup env feature projectPath sendToRenderer
                  (not_isolated projectPath))
             (\<lambda>result. ret ()))
          (\<lambda>error. reportError env projectPath (f_id feature) sendToRenderer error))
       (release (f_id feature))"
| "settle env (StartAwaitingGit feature projectPath sendToRenderer answer) =
     try_finally
       (try_catch
          (bnd (bnd (bnd (resume_with answer)
                       (setupWorktreeForFeature_afterGit env feature projectPath
                          sendToRenderer))
                  (startFeatureAsync_afterSetup env feature projectPath sendToRenderer))
             (\<lambda>result. ret ()))
          (\<lambda>error. reportError env projectPath (f_id feature) sendToRenderer error))
       (release (f_id feature))"
| "settle env (StartReporting feature projectPath sendToRenderer error) =
     try_finally
       (reportError_afterWrite env projectPath (f_id feature) sendToRenderer error)
       (release (f_id feature))"
| "settle env (FollowUpWork projectPath featureId prompt imagePaths sendToRenderer answer) =
     try_catch
       (try_finally
          (try_catch
             (bnd (bnd (resume_with answer)
                     (runFollowUpWork_afterLoad env projectPath featureId prompt imagePaths
                        sendToRenderer))
                (\<lambda>result. ret ()))
             (\<lambda>error. reportError env projectPath featureId sendToRenderer error))
          (release featureId))
       (\<lambda>error w. (Inr (), release featureId w))"

text \<open>commitFeature, lines 1126-1193.\<close>

definition commitFeature_try :: "env \<Rightarrow> string \<Rightarrow> string \<Rightarrow> sink \<Rightarrow> unit io" where
  "commitFeature_try env projectPath featureId sendToRenderer =
     bnd (await (LoadFeatures projectPath) (loadFeatures env)) (\<lambda>features.
     case find (\<lambda>f. f_id f = featureId) features of
       None \<Rightarrow> throw (not_found env featureId)
     | Some feature \<Rightarrow>
         bnd (emitEvent env projectPath sendToRenderer
                (FeatureStart (f_id feature)
                   (feature\<lparr>f_description := Some ''Committing changes...''\<rparr>))) (\<lambda>_.
         bnd (emitEvent env projectPath sendToRenderer
                (Phase featureId ''action'' ''Committing changes to git...'')) (\<lambda>_.
         bnd (await (CommitChangesOnly feature projectPath) (commitChangesOnly env)) (\<lambda>_.
         bnd (await (UpdateFeatureStatus featureId Verified projectPath None None)
                    (updateFeatureStatus env)) (\<lambda>_.
         bnd (emitEvent env projectPath sendToRenderer
                (FeatureComplete (f_id feature) True ''Changes committed successfully'')) (\<lambda>_.
         ret ()))))))"

definition commitFeature :: "env \<Rightarrow> string \<Rightarrow> string \<Rightarrow> sink \<Rightarrow> unit io" where
  "commitFeature env projectPath featureId sendToRenderer =
     (\<lambda>w. try_finally
             (try_catch
                (commitFeature_try env projectPath featureId sendToRenderer)
                (\<lambda>error. bnd (emitEvent env projectPath sendToRenderer
                                 (ErrorEvent (err_message error) featureId))
                            (\<lambda>_. throw error)))
             (release featureId)
             (register featureId projectPath sendToRenderer w))"

text \<open>revertFeature, lines 1206-1249, and mergeFeature, lines 1254-1306.\<close>

definition or_default :: "string option \<Rightarrow> string \<Rightarrow> string" where
  "or_default error d = (case error of None \<Rightarrow> d | Some e \<Rightarrow> if e = [] then d else e)"

definition revertFeature_try :: "env \<Rightarrow> string \<Rightarrow> string \<Rightarrow> sink \<Rightarrow> string outcome io" where
  "revertFeature_try env projectPath featureId sendToRenderer =
     bnd (\<lambda>w. if has (runningFeatures w) featureId
                then bnd (stopFeature featureId) (\<lambda>stopped. ret ()) w
                else (Inr (), w)) (\<lambda>_.
     bnd (await (RemoveWorktree projectPath featureId True) (removeWorktree env)) (\<lambda>result.
     case result of
       WmFailure err \<Rightarrow> throw (new_Error env (or_default err ''Failed to remove worktree''))
     | WmSuccess removedPath \<Rightarrow>
         bnd (await (UpdateFeatureWorktree featureId projectPath None None)
                    (updateFeatureWorktree env)) (\<lambda>_.
         bnd (await (UpdateFeatureStatus featureId Backlog projectPath None None)
                    (updateFeatureStatus env)) (\<lambda>_.
         bnd (await (DeleteContextFile projectPath featureId) (deleteContextFile env)) (\<lambda>_.
         bnd (emitEvent env projectPath sendToRenderer
                (FeatureComplete featureId False
                   ''Feature reverted - all changes discarded'')) (\<lambda>_.
         ret (Success removedPath)))))))"

definition revertFeature :: "env \<Rightarrow> string \<Rightarrow> string \<Rightarrow> sink \<Rightarrow> string outcome io" where
  "revertFeature env projectPath featureId sendToRenderer =
     try_catch
       (revertFeature_try env projectPath featureId sendToRenderer)
       (\<lambda>error.
          bnd (emitEvent env projectPath sendToRenderer (ErrorEvent (err_message error) featureId))
            (\<lambda>_. ret (Failure (err_message error))))"



section \<open>Observations on a trace\<close>

text \<open>The status the service last asked the store to persist for a feature, if any.\<close>

fun persisted_status :: "call list \<Rightarrow> string \<Rightarrow> status option \<Rightarrow> status option" where
  "persisted_status [] featureId acc = acc"
| "persisted_status (UpdateFeatureStatus i st p summary err # cs) featureId acc =
     persisted_status cs featureId (if i = featureId then Some st else acc)"
| "persisted_status (c # cs) featureId acc = persisted_status cs featureId acc"

fun is_engine_call :: "call \<Rightarrow> bool" where
  "is_engine_call (ImplementFeature f p) = True"
| "is_engine_call (VerifyFeatureTests f p) = True"
| "is_engine_call (ResumeFeatureWithContext f p t) = True"
| "is_engine_call (CommitChangesOnly f p) = True"
| "is_engine_call c = False"

fun is_store_write :: "call \<Rightarrow> bool" where
  "is_store_write (UpdateFeatureStatus i st p summary err) = True"
| "is_store_write (UpdateFeatureWorktree i p wt br) = True"
| "is_store_write (WriteToContextFile p i t) = True"
| "is_store_write (DeleteContextFile p i) = True"
| "is_store_write c = False"

text \<open>What reaches the renderer when \<open>emitEvent\<close> is called with this callback.\<close>

definition sent :: "sink \<Rightarrow> event \<Rightarrow> string \<Rightarrow> call list" where
  "sent sendToRenderer ev projectPath =
     (case sendToRenderer of None \<Rightarrow> [] | Some k \<Rightarrow> [SendToRenderer k ev projectPath])"

text \<open>The trace of \<open>w\<close> extended by the calls \<open>cs\<close>, made while the registry is that of \<open>w\<close>.\<close>

definition after :: "world \<Rightarrow> call list \<Rightarrow> entry list" where
  "after w cs = trace w @ map (\<lambda>c. (c, active_ids w)) cs"

text \<open>The state \<open>w\<close> after the calls \<open>cs\<close> were made and recorded.\<close>

definition extended :: "world \<Rightarrow> call list \<Rightarrow> world" where
  "extended w cs = w\<lparr>trace := after w cs\<rparr>"

text \<open>The calls made between the state \<open>w\<close> and the later state \<open>w'\<close>.\<close>

definition new_calls :: "world \<Rightarrow> world \<Rightarrow> call list" where
  "new_calls w w' = drop (length (trace w)) (calls w')"

text \<open>
  Every call of the renderer callback returns normally (vacuously so when there is no
  callback).
\<close>

definition delivers :: "env \<Rightarrow> sink \<Rightarrow> bool" where
  "delivers env sendToRenderer =
     (sendToRenderer = None \<or> (\<forall>tr. rendererCallback env tr = Inr ()))"

text \<open>
  The calls of the \<open>n\<close>-th automatic retry of resumeFeature (lines 578-613): reload the
  features, write the retry marker to the context file, send the progress event, read the
  context file back, resume the engine with it.
\<close>

definition retry_calls ::
  "string \<Rightarrow> string \<Rightarrow> sink \<Rightarrow> feature \<Rightarrow> nat \<Rightarrow> transcript \<Rightarrow> call list" where
  "retry_calls projectPath featureId sendToRenderer feature n retryContext =
     [LoadFeatures projectPath,
      WriteToContextFile projectPath featureId (AutoRetryMarker n)]
     @ sent sendToRenderer (Progress (f_id feature) (AutoRetryNotice n)) projectPath
     @ [ReadContextFile projectPath featureId,
        ResumeFeatureWithContext feature projectPath retryContext]"

section \<open>Concrete collaborators and states for the examples\<close>

definition demo_feature :: "string \<Rightarrow> status \<Rightarrow> bool \<Rightarrow> feature" where
  "demo_feature i st skip =
     \<lparr>f_id = i, f_status = st, f_description = Some ''add a login page'', f_skipTests = skip,
      f_worktreePath = None, f_branchName = None, f_followUp = None\<rparr>"

definition demo_error :: jserror where
  "demo_error = \<lparr>err_message = ''rate limited'', err_stack = Some ''at engine''\<rparr>"

text \<open>A collaborator call that always throws, and one that always answers \<open>x\<close>.\<close>

definition failing :: "entry list \<Rightarrow> jserror + 'a" where
  "failing tr = Inl demo_error"

definition answering :: "'a \<Rightarrow> entry list \<Rightarrow> jserror + 'a" where
  "answering x tr = Inr x"



text \<open>
  Collaborators that never throw: the store lists \<open>fs\<close>, every engine call answers
  \<open>passes = ok\<close>, the project is a git repository and the worktree manager succeeds.
\<close>

definition demo_env :: "feature list \<Rightarrow> bool \<Rightarrow> env" where
  "demo_env fs ok =
     \<lparr>loadFeatures = (\<lambda>tr. Inr fs),
      updateFeatureStatus = (\<lambda>tr. Inr ()),
      updateFeatureWorktree = (\<lambda>tr. Inr ()),
      implementFeature = (\<lambda>tr. Inr \<lparr>passes = ok, res_message = ''finished''\<rparr>),
      verifyFeatureTests = (\<lambda>tr. Inr \<lparr>passes = ok, res_message = ''finished''\<rparr>),
      resumeFeatureWithContext = (\<lambda>tr. Inr \<lparr>passes = ok, res_message = ''finished''\<rparr>),
      commitChangesOnly = (\<lambda>tr. Inr ()),
      readContextFile = (\<lambda>tr. Inr [Raw ''log'']),
      writeToContextFile = (\<lambda>tr. Inr ()),
      deleteContextFile = (\<lambda>tr. Inr ()),
      isGitRepo = (\<lambda>tr. Inr True),
      createWorktree = (\<lambda>tr. Inr (WmSuccess
         \<lparr>cw_worktreePath = ''/p/.worktrees/f1'', cw_branchName = ''feature/f1'',
          cw_baseBranch = ''main''\<rparr>)),
      removeWorktree = (\<lambda>tr. Inr (WmSuccess ''/p/.worktrees/f1'')),
      mergeWorktree = (\<lambda>tr. Inr (WmSuccess
         \<lparr>mw_mergedBranch = ''feature/f1'', mw_intoBranch = ''main''\<rparr>)),
      rendererCallback = (\<lambda>tr. Inr ()),
      errorStack = (\<lambda>msg. Some (''Error: '' @ msg)),
      typeError = \<lparr>err_message = ''Cannot read properties of undefined'',
                   err_stack = Some ''at startFeatureAsync''\<rparr>\<rparr>"

definition demo_loop :: loop_state where
  "demo_loop =
     \<lparr>isRunning = True, interval = Some 1, loop_abortController = None,
      loop_sendToRenderer = Some 0, maxConcurrency = 2\<rparr>"

text \<open>No execution is registered; the loop of project \<open>/p\<close> is running.\<close>

definition idle_world :: world where
  "idle_world = \<lparr>runningFeatures = [], projectLoops = [(''/p'', demo_loop)], trace = []\<rparr>"

text \<open>Feature \<open>f1\<close> of project \<open>/p\<close> is registered, with an abort controller.\<close>

definition busy_world :: world where
  "busy_world =
     \<lparr>runningFeatures =
        [(''f1'', createExecutionContext\<lparr>abortController := Some 7,
                                          ex_projectPath := Some ''/p''\<rparr>)],
      projectLoops = [(''/p'', demo_loop)], trace = []\<rparr>"

text \<open>
  Three executions are registered, \<open>f1\<close> and \<open>f3\<close> for project \<open>/p\<close> and \<open>f2\<close> for project
  \<open>/q\<close>; both projects have a loop.
\<close>

definition two_project_world :: world where
  "two_project_world =
     \<lparr>runningFeatures =
        [(''f1'', createExecutionContext\<lparr>ex_projectPath := Some ''/p''\<rparr>),
         (''f2'', createExecutionContext\<lparr>ex_projectPath := Some ''/q''\<rparr>),
         (''f3'', createExecutionContext\<lparr>ex_projectPath := Some ''/p''\<rparr>)],
      projectLoops = [(''/p'', demo_loop), (''/q'', demo_loop\<lparr>interval := None\<rparr>)],
      trace = []\<rparr>"

section \<open>Facts about the computations\<close>

lemmas io_defs = ret_def throw_def bnd_def try_catch_def try_finally_def await_def
  record_call_def emitEvent_def calls_def active_ids_def

lemmas demo_defs = demo_feature_def demo_error_def demo_env_def demo_loop_def idle_world_def
  busy_world_def createExecutionContext_def failing_def answering_def

lemma has_delete: "\<not> has (AList.delete k m) k"
  by (simp add: has_def delete_conv')

lemma extended_Nil [simp]: "extended w [] = w"
  by (simp add: extended_def after_def)

lemma record_call_extended: "record_call c w = extended w [c]"
  by (simp add: record_call_def extended_def after_def)

lemma extended_extended [simp]: "extended (extended w cs) cs' = extended w (cs @ cs')"
  by (simp add: extended_def after_def active_ids_def)

lemma extended_fields [simp]:
  "trace (extended w cs) = after w cs"
  "runningFeatures (extended w cs) = runningFeatures w"
  "projectLoops (extended w cs) = projectLoops w"
  "active_ids (extended w cs) = active_ids w"
  by (simp_all add: extended_def active_ids_def)

lemma after_extended [simp]: "after (extended w cs) cs' = after w (cs @ cs')"
  by (simp add: extended_def after_def active_ids_def)

lemma calls_extended [simp]: "calls (extended w cs) = calls w @ cs"
  by (simp add: extended_def after_def calls_def comp_def)

lemma new_calls_extended [simp]: "new_calls w (extended w cs) = cs"
  by (simp add: new_calls_def calls_def after_def extended_def comp_def)

lemma new_calls_self [simp]: "new_calls w w = []"
  by (simp add: new_calls_def calls_def)

lemma sent_simps [simp]:
  "sent None ev p = []"
  "sent (Some k) ev p = [SendToRenderer k ev p]"
  by (simp_all add: sent_def)

lemma is_store_write_sent [simp]: "filter is_store_write (sent s ev p) = []"
  by (cases s) simp_all

lemma ret_apply [simp]: "ret x w = (Inr x, w)"
  by (simp add: ret_def)

lemma throw_apply [simp]: "throw e w = (Inl e, w)"
  by (simp add: throw_def)

lemma resume_with_apply [simp]: "resume_with a w = (a, w)"
  by (simp add: resume_with_def)

lemma await_apply: "await c a w = (a (after w [c]), extended w [c])"
  by (simp add: await_def record_call_extended)

lemma bnd_Inr [simp]: "m w = (Inr x, w') \<Longrightarrow> bnd m f w = f x w'"
  by (simp add: bnd_def)

lemma bnd_Inl [simp]: "m w = (Inl e, w') \<Longrightarrow> bnd m f w = (Inl e, w')"
  by (simp add: bnd_def)

lemma bnd_await:
  "bnd (await c a) f w =
     (case a (after w [c]) of
        Inl e \<Rightarrow> (Inl e, extended w [c])
      | Inr x \<Rightarrow> f x (extended w [c]))"
  by (simp add: bnd_def await_apply split: sum.splits)

text \<open>
  emitEvent always records what it sent; it returns normally when the callback does, and
  otherwise throws what the callback threw.
\<close>

lemma emitEvent_snd [simp]: "snd (emitEvent env p s ev w) = extended w (sent s ev p)"
  by (cases s) (simp_all add: emitEvent_def await_apply)

lemma emitEvent_None [simp]: "emitEvent env p None ev w = (Inr (), w)"
  by (simp add: emitEvent_def)


lemma emitEvent_apply [simp]:
  "delivers env s \<Longrightarrow> emitEvent env p s ev w = (Inr (), extended w (sent s ev p))"
  by (cases s) (simp_all add: emitEvent_def await_apply delivers_def)

lemma bnd_emitEvent [simp]:
  "delivers env s \<Longrightarrow> bnd (emitEvent env p s ev) f w = f () (extended w (sent s ev p))"
  by (simp add: bnd_def)

lemma emitEvent_eq:
  "emitEvent env p s ev w = (fst (emitEvent env p s ev w), extended w (sent s ev p))"
  by (simp add: prod_eq_iff)

lemma bnd_emitEvent_cases:
  "bnd (emitEvent env p s ev) f w =
     (case fst (emitEvent env p s ev w) of
        Inl e \<Rightarrow> (Inl e, extended w (sent s ev p))
      | Inr u \<Rightarrow> f () (extended w (sent s ev p)))"
  by (subst bnd_def, subst emitEvent_eq) (simp split: sum.splits)

lemma emitEvent_Inr:
  "emitEvent env p s ev w = (Inr x, v) \<Longrightarrow> v = extended w (sent s ev p)"
  by (subst (asm) emitEvent_eq) simp

lemma emitEvent_Inl:
  "emitEvent env p s ev w = (Inl e, v) \<Longrightarrow>
   v = extended w (sent s ev p) \<and> \<not> delivers env s
   \<and> (\<exists>k. s = Some k \<and> rendererCallback env (after w [SendToRenderer k ev p]) = Inl e)"
  by (cases s) (fastforce simp: emitEvent_def await_apply delivers_def)+

lemma delivers_None [simp]: "delivers env None"
  by (simp add: delivers_def)

section \<open>Cancellation of one feature\<close>

text \<open>
  C8. stopFeature on an id that is not in the registry returns the typed failure
  \<open>{success: false, error: "Feature <id> is not running"}\<close> as a value and changes nothing.
  On a registered id it returns success, calls \<open>abort\<close> on the execution's abort controller
  (when the execution has one) and nothing else, and deletes the registry entry in the same
  step. Hence a second stopFeature on the same id returns the not-running failure, again as
  a value.
\<close>

theorem stopFeature_typed_failure_and_immediate_release:
  "(\<not> has (runningFeatures w) featureId \<longrightarrow>
      stopFeature featureId w =
        (Inr (Failure (''Feature '' @ featureId @ '' is not running'')), w))
   \<and> (has (runningFeatures w) featureId \<longrightarrow>
        fst (stopFeature featureId w) = Inr (Success ())
      \<and> runningFeatures (snd (stopFeature featureId w)) =
          AList.delete featureId (runningFeatures w)
      \<and> \<not> has (runningFeatures (snd (stopFeature featureId w))) featureId
      \<and> projectLoops (snd (stopFeature featureId w)) = projectLoops w
      \<and> (\<forall>ex. map_of (runningFeatures w) featureId = Some ex \<longrightarrow>
            calls (snd (stopFeature featureId w)) =
              calls w @ (case abortController ex of None \<Rightarrow> [] | Some a \<Rightarrow> [Abort a])))
   \<and> fst (stopFeature featureId (snd (stopFeature featureId w))) =
        Inr (Failure (''Feature '' @ featureId @ '' is not running''))"
  by (auto simp: stopFeature_def release_def io_defs Let_def has_def delete_conv'
           split: option.splits)

theorem stopFeature_witness:
  "has (runningFeatures busy_world) ''f1''
   \<and> fst (stopFeature ''f1'' busy_world) = Inr (Success ())
   \<and> runningFeatures (snd (stopFeature ''f1'' busy_world)) = []
   \<and> calls (snd (stopFeature ''f1'' busy_world)) = [Abort 7]
   \<and> fst (stopFeature ''f1'' (snd (stopFeature ''f1'' busy_world))) =
        Inr (Failure ''Feature f1 is not running'')
   \<and> \<not> has (runningFeatures idle_world) ''f1''
   \<and> stopFeature ''f1'' idle_world = (Inr (Failure ''Feature f1 is not running''), idle_world)"
  using stopFeature_typed_failure_and_immediate_release [of busy_world "''f1''"]
        stopFeature_typed_failure_and_immediate_release [of idle_world "''f1''"]
  by (simp add: demo_defs has_def calls_def)

section \<open>Stopping a project loop\<close>

text \<open>
  C6. stop on a project without loop state returns \<open>{success: true, runningFeatures: 0}\<close>
  and changes nothing. On a project with loop state it sets isRunning to false, clears the
  interval timer (when one is set) and forgets it, aborts the loop's own abort controller
  (when one is set) and forgets it, makes no other call, leaves the registry and the loop
  state of every other project as they were, and returns the number of registry entries
  whose execution has this project's path: executions of other projects are not counted.
\<close>

theorem stop_only_turns_the_loop_off:
  "(map_of (projectLoops w) projectPath = None \<longrightarrow> stop projectPath w = (Inr 0, w))
   \<and> (\<forall>st. map_of (projectLoops w) projectPath = Some st \<longrightarrow>
        fst (stop projectPath w) =
          Inr (length (filter (\<lambda>(featureId, ex). ex_projectPath ex = Some projectPath)
                         (runningFeatures w)))
      \<and> runningFeatures (snd (stop projectPath w)) = runningFeatures w
      \<and> map_of (projectLoops (snd (stop projectPath w))) projectPath =
          Some (st\<lparr>isRunning := False, interval := None, loop_abortController := None\<rparr>)
      \<and> (\<forall>q. q \<noteq> projectPath \<longrightarrow>
            map_of (projectLoops (snd (stop projectPath w))) q = map_of (projectLoops w) q)
      \<and> calls (snd (stop projectPath w)) =
          calls w @ (case interval st of None \<Rightarrow> [] | Some t \<Rightarrow> [ClearInterval t])
                  @ (case loop_abortController st of None \<Rightarrow> [] | Some a \<Rightarrow> [Abort a]))"
  by (auto simp: stop_def io_defs Let_def getRunningCountForProject_def update_conv'
           split: option.splits)

theorem stop_witness:
  "map_of (projectLoops two_project_world) ''/p'' = Some demo_loop
   \<and> fst (stop ''/p'' two_project_world) = Inr 2
   \<and> runningFeatures (snd (stop ''/p'' two_project_world)) = runningFeatures two_project_world
   \<and> map_of (projectLoops (snd (stop ''/p'' two_project_world))) ''/p'' =
        Some (demo_loop\<lparr>isRunning := False, interval := None\<rparr>)
   \<and> map_of (projectLoops (snd (stop ''/p'' two_project_world))) ''/q'' =
        Some (demo_loop\<lparr>interval := None\<rparr>)
   \<and> calls (snd (stop ''/p'' two_project_world)) = [ClearInterval 1]
   \<and> map_of (projectLoops two_project_world) ''/q'' = Some (demo_loop\<lparr>interval := None\<rparr>)
   \<and> fst (stop ''/q'' two_project_world) = Inr 1
   \<and> calls (snd (stop ''/q'' two_project_world)) = []
   \<and> map_of (projectLoops two_project_world) ''/r'' = None
   \<and> stop ''/r'' two_project_world = (Inr 0, two_project_world)"
  using stop_only_turns_the_loop_off [of two_project_world "''/p''"]
        stop_only_turns_the_loop_off [of two_project_world "''/q''"]
        stop_only_turns_the_loop_off [of two_project_world "''/r''"]
  by (simp add: demo_defs two_project_world_def calls_def)

section \<open>Worktree isolation\<close>









section \<open>Facts about stopFeature, revert, merge and the error handlers\<close>

lemma release_fields [simp]:
  "trace (release k w) = trace w"
  "projectLoops (release k w) = projectLoops w"
  "runningFeatures (release k w) = AList.delete k (runningFeatures w)"
  by (simp_all add: release_def)

lemma calls_release [simp]: "calls (release k w) = calls w"
  by (simp add: calls_def)

lemma new_calls_release_extended [simp]:
  "new_calls w (extended (release k (extended w cs)) cs') = cs @ cs'"
  by (simp add: new_calls_def calls_def after_def extended_def comp_def)

lemma stopFeature_active:
  "has (runningFeatures w) featureId \<Longrightarrow>
   stopFeature featureId w =
     (Inr (Success ()),
      release featureId
        (extended w (case map_of (runningFeatures w) featureId of
                       None \<Rightarrow> []
                     | Some ex \<Rightarrow> (case abortController ex of None \<Rightarrow> [] | Some a \<Rightarrow> [Abort a]))))"
  by (simp add: stopFeature_def record_call_extended split: option.splits)

lemma revert_stops_first:
  "has (runningFeatures w) featureId \<Longrightarrow>
   revertFeature env projectPath featureId sendToRenderer w =
   revertFeature env projectPath featureId sendToRenderer (snd (stopFeature featureId w))"
  by (simp add: revertFeature_def revertFeature_try_def try_catch_def bnd_def stopFeature_active has_delete)

lemma revert_failure:
  "delivers env sendToRenderer \<Longrightarrow>
   \<not> has (runningFeatures v) featureId \<Longrightarrow>
   removeWorktree env (after v [RemoveWorktree projectPath featureId True]) = Inr (WmFailure err) \<Longrightarrow>
   revertFeature env projectPath featureId sendToRenderer v =
     (Inr (Failure (or_default err ''Failed to remove worktree'')),
      extended v (RemoveWorktree projectPath featureId True
        # sent sendToRenderer
            (ErrorEvent (or_default err ''Failed to remove worktree'') featureId) projectPath))"
  by (simp add: revertFeature_def revertFeature_try_def try_catch_def bnd_await new_Error_def)

lemma revert_failure_state:
  "\<not> has (runningFeatures v) featureId \<Longrightarrow>
   removeWorktree env (after v [RemoveWorktree projectPath featureId True]) = Inr (WmFailure err) \<Longrightarrow>
   snd (revertFeature env projectPath featureId sendToRenderer v) =
      extended v (RemoveWorktree projectPath featureId True
        # sent sendToRenderer
            (ErrorEvent (or_default err ''Failed to remove worktree'') featureId) projectPath)"
  by (simp add: revertFeature_def revertFeature_try_def try_catch_def bnd_await new_Error_def
        bnd_emitEvent_cases split: sum.splits)

lemma revert_success:
  "delivers env sendToRenderer \<Longrightarrow>
   \<not> has (runningFeatures v) featureId \<Longrightarrow>
   removeWorktree env (after v [RemoveWorktree projectPath featureId True]) = Inr (WmSuccess removedPath) \<Longrightarrow>
   updateFeatureWorktree env
     (after v [RemoveWorktree projectPath featureId True,
               UpdateFeatureWorktree featureId projectPath None None]) = Inr () \<Longrightarrow>
   updateFeatureStatus env
     (after v [RemoveWorktree projectPath featureId True,
               UpdateFeatureWorktree featureId projectPath None None,
               UpdateFeatureStatus featureId Backlog projectPath None None]) = Inr () \<Longrightarrow>
   deleteContextFile env
     (after v [RemoveWorktree projectPath featureId True,
               UpdateFeatureWorktree featureId projectPath None None,
               UpdateFeatureStatus featureId Backlog projectPath None None,
               DeleteContextFile projectPath featureId]) = Inr () \<Longrightarrow>
   revertFeature env projectPath featureId sendToRenderer v =
     (Inr (Success removedPath),
      extended v ([RemoveWorktree projectPath featureId True,
               UpdateFeatureWorktree featureId projectPath None None,
               UpdateFeatureStatus featureId Backlog projectPath None None,
               DeleteContextFile projectPath featureId]
        @ sent sendToRenderer
            (FeatureComplete featureId False ''Feature reverted - all changes discarded'')
            projectPath))"
  by (simp add: revertFeature_def revertFeature_try_def try_catch_def bnd_await)

lemma extended_exI [simp]: "\<exists>cs. extended v (c # xs) = extended v (c # cs)"
  by (rule exI) (rule refl)

lemma extended_exI4 [simp]:
  "\<exists>cs. extended v (a # b # c # d # xs) = extended v (a # b # c # d # cs)"
  by (rule exI) (rule refl)

lemma revert_success_order:
  "\<not> has (runningFeatures v) featureId \<Longrightarrow>
   removeWorktree env (after v [RemoveWorktree projectPath featureId True]) = Inr (WmSuccess removedPath) \<Longrightarrow>
   updateFeatureWorktree env
     (after v [RemoveWorktree projectPath featureId True,
               UpdateFeatureWorktree featureId projectPath None None]) = Inr () \<Longrightarrow>
   updateFeatureStatus env
     (after v [RemoveWorktree projectPath featureId True,
               UpdateFeatureWorktree featureId projectPath None None,
               UpdateFeatureStatus featureId Backlog projectPath None None]) = Inr () \<Longrightarrow>
   \<exists>cs. snd (revertFeature env projectPath featureId sendToRenderer v) =
      extended v (RemoveWorktree projectPath featureId True
                  # UpdateFeatureWorktree featureId projectPath None None
                  # UpdateFeatureStatus featureId Backlog projectPath None None
                  # DeleteContextFile projectPath featureId # cs)"
  by (simp add: revertFeature_def revertFeature_try_def try_catch_def bnd_await
        bnd_emitEvent_cases split: sum.splits)

lemma revert_thrown_state:
  "\<not> has (runningFeatures v) featureId \<Longrightarrow>
   removeWorktree env (after v [RemoveWorktree projectPath featureId True]) = Inl e \<Longrightarrow>
   snd (revertFeature env projectPath featureId sendToRenderer v) =
      extended v (RemoveWorktree projectPath featureId True
        # sent sendToRenderer (ErrorEvent (err_message e) featureId) projectPath)"
  by (simp add: revertFeature_def revertFeature_try_def try_catch_def bnd_await
        bnd_emitEvent_cases split: sum.splits)

lemma revert_store_write:
  assumes "\<not> has (runningFeatures v) featureId"
    and "filter is_store_write
           (new_calls v (snd (revertFeature env projectPath featureId sendToRenderer v))) \<noteq> []"
  shows "\<exists>removedPath. removeWorktree env (after v [RemoveWorktree projectPath featureId True]) =
           Inr (WmSuccess removedPath)"
proof (cases "removeWorktree env (after v [RemoveWorktree projectPath featureId True])")
  case (Inl e)
  from assms(2) show ?thesis
    by (simp add: revert_thrown_state [OF assms(1) Inl])
next
  case (Inr result)
  show ?thesis
  proof (cases result)
    case (WmFailure err)
    from assms(2) show ?thesis
      by (simp add: revert_failure_state [OF assms(1) Inr [unfolded WmFailure]])
  next
    case (WmSuccess removedPath)
    with Inr show ?thesis by simp
  qed
qed

lemma revertFeature_try_state:
  "\<not> has (runningFeatures v) featureId \<Longrightarrow>
   \<exists>cs. snd (revertFeature_try env projectPath featureId sendToRenderer v) =
          extended v (RemoveWorktree projectPath featureId True # cs)"
  by (simp add: revertFeature_try_def bnd_await bnd_emitEvent_cases
           split: sum.splits wm_result.splits)

lemma revert_calls_removeWorktree_first:
  assumes "\<not> has (runningFeatures v) featureId"
  shows "\<exists>cs. snd (revertFeature env projectPath featureId sendToRenderer v) =
          extended v (RemoveWorktree projectPath featureId True # cs)"
proof -
  obtain cs where cs: "snd (revertFeature_try env projectPath featureId sendToRenderer v) =
          extended v (RemoveWorktree projectPath featureId True # cs)"
    using revertFeature_try_state [OF assms] by blast
  obtain r w1 where tried: "revertFeature_try env projectPath featureId sendToRenderer v = (r, w1)"
    by (cases "revertFeature_try env projectPath featureId sendToRenderer v") blast
  with cs have w1: "w1 = extended v (RemoveWorktree projectPath featureId True # cs)"
    by simp
  show ?thesis
  proof (cases r)
    case (Inl error)
    with tried w1 show ?thesis
      by (simp add: revertFeature_def try_catch_def bnd_emitEvent_cases split: sum.splits)
  next
    case (Inr x)
    with tried w1 show ?thesis
      by (simp add: revertFeature_def try_catch_def)
  qed
qed

lemma has_active_ids: "has (runningFeatures w) k = (k \<in> set (active_ids w))"
  by (simp add: has_def active_ids_def map_of_eq_None_iff)

lemma register_fields [simp]:
  "trace (register k p s w) = trace w"
  "projectLoops (register k p s w) = projectLoops w"
  by (simp_all add: register_def)

lemma reportError_afterWrite_apply:
  "delivers env sendToRenderer \<Longrightarrow>
   reportError_afterWrite env projectPath featureId sendToRenderer error w =
     (Inr (),
      extended w (UpdateFeatureStatus featureId WaitingApproval projectPath None
                     (Some (err_message error))
                  # sent sendToRenderer (ErrorEvent (err_message error) featureId) projectPath))"
  by (simp add: reportError_afterWrite_def bnd_def try_catch_def await_apply split: sum.splits)

lemma reportError_apply:
  "delivers env sendToRenderer \<Longrightarrow>
   reportError env projectPath featureId sendToRenderer error w =
     (Inr (),
      extended w ([WriteToContextFile projectPath featureId
                     (ErrorReport (err_message error) (stack_text error)),
                   UpdateFeatureStatus featureId WaitingApproval projectPath None
                     (Some (err_message error))]
                  @ sent sendToRenderer (ErrorEvent (err_message error) featureId) projectPath))"
  by (simp add: reportError_def reportError_afterWrite_apply bnd_def try_catch_def await_apply
           split: sum.splits)

lemma runFeature_rethrows:
  "delivers env sendToRenderer \<Longrightarrow>
   \<not> has (runningFeatures w) featureId \<Longrightarrow>
   runFeature_try env projectPath featureId sendToRenderer useWorktrees
     (register featureId projectPath sendToRenderer w) = (Inl error, w1) \<Longrightarrow>
   runFeature env projectPath featureId sendToRenderer useWorktrees w =
     (Inl error,
      release featureId
        (extended w1 ([WriteToContextFile projectPath featureId
                         (ErrorReport (err_message error) (stack_text error)),
                       UpdateFeatureStatus featureId WaitingApproval projectPath None
                         (Some (err_message error))]
                      @ sent sendToRenderer (ErrorEvent (err_message error) featureId)
                          projectPath)))"
  by (simp add: runFeature_def try_finally_def try_catch_def reportError_apply)

lemma verifyFeature_rethrows:
  "delivers env sendToRenderer \<Longrightarrow>
   \<not> has (runningFeatures w) featureId \<Longrightarrow>
   verifyFeature_try env projectPath featureId sendToRenderer
     (register featureId projectPath sendToRenderer w) = (Inl error, w1) \<Longrightarrow>
   verifyFeature env projectPath featureId sendToRenderer w =
     (Inl error,
      release featureId
        (extended w1 ([WriteToContextFile projectPath featureId
                         (ErrorReport (err_message error) (stack_text error)),
                       UpdateFeatureStatus featureId WaitingApproval projectPath None
                         (Some (err_message error))]
                      @ sent sendToRenderer (ErrorEvent (err_message error) featureId)
                          projectPath)))"
  by (simp add: verifyFeature_def try_finally_def try_catch_def reportError_apply)

lemma resumeFeature_rethrows:
  "delivers env sendToRenderer \<Longrightarrow>
   \<not> has (runningFeatures w) featureId \<Longrightarrow>
   resumeFeature_try env projectPath featureId sendToRenderer
     (register featureId projectPath sendToRenderer w) = (Inl error, w1) \<Longrightarrow>
   resumeFeature env projectPath featureId sendToRenderer w =
     (Inl error,
      release featureId
        (extended w1 ([WriteToContextFile projectPath featureId
                         (ErrorReport (err_message error) (stack_text error)),
                       UpdateFeatureStatus featureId WaitingApproval projectPath None
                         (Some (err_message error))]
                      @ sent sendToRenderer (ErrorEvent (err_message error) featureId)
                          projectPath)))"
  by (simp add: resumeFeature_def try_finally_def try_catch_def reportError_apply)

lemma startFeatureAsync_swallows:
  "delivers env sendToRenderer \<Longrightarrow>
   \<not> has (runningFeatures w) (f_id feature) \<Longrightarrow>
   startFeatureAsync_try env feature projectPath sendToRenderer useWorktrees w =
     (Inl error, w1) \<Longrightarrow>
   startFeatureAsync env feature projectPath sendToRenderer useWorktrees w =
     (Inr (),
      release (f_id feature)
        (extended w1 ([WriteToContextFile projectPath (f_id feature)
                         (ErrorReport (err_message error) (stack_text error)),
                       UpdateFeatureStatus (f_id feature) WaitingApproval projectPath None
                         (Some (err_message error))]
                      @ sent sendToRenderer (ErrorEvent (err_message error) (f_id feature))
                          projectPath)))"
  by (simp add: startFeatureAsync_def try_finally_def try_catch_def reportError_apply)

lemma followUp_swallows:
  "delivers env sendToRenderer \<Longrightarrow>
   runFollowUpWork_try env projectPath featureId prompt imagePaths sendToRenderer w =
     (Inl error, w1) \<Longrightarrow>
   followUp_background env projectPath featureId prompt imagePaths sendToRenderer w =
     (Inr (),
      release featureId
        (extended w1 ([WriteToContextFile projectPath featureId
                         (ErrorReport (err_message error) (stack_text error)),
                       UpdateFeatureStatus featureId WaitingApproval projectPath None
                         (Some (err_message error))]
                      @ sent sendToRenderer (ErrorEvent (err_message error) featureId)
                          projectPath)))"
  by (simp add: followUp_background_def runFollowUpWork_def try_finally_def try_catch_def
        reportError_apply)


lemma append_exI [simp]: "\<exists>cs. xs @ ys = cs @ ys"
  by (rule exI) (rule refl)

lemma bnd_InrE:
  assumes "bnd m f w = (Inr y, w')"
  obtains x w1 where "m w = (Inr x, w1)" and "f x w1 = (Inr y, w')"
  using assms by (auto simp: bnd_def split: prod.splits sum.splits)











section \<open>Registration of an execution\<close>

text \<open>
  runFeature, verifyFeature, resumeFeature and followUpFeature reject an id that is already
  registered and leave the state as it is.
\<close>

lemma already_running_rejected:
  "has (runningFeatures w) featureId \<Longrightarrow>
   runFeature env projectPath featureId sendToRenderer useWorktrees w =
     (Inl (already_running env featureId), w)
   \<and> verifyFeature env projectPath featureId sendToRenderer w =
     (Inl (already_running env featureId), w)
   \<and> resumeFeature env projectPath featureId sendToRenderer w =
     (Inl (already_running env featureId), w)
   \<and> followUpFeature env projectPath featureId prompt imagePaths sendToRenderer w =
     (Inl (already_running env featureId), w)"
  by (simp add: runFeature_def verifyFeature_def resumeFeature_def followUpFeature_def)

text \<open>
  C1. commitFeature has no such check. Called for feature \<open>f1\<close> while \<open>f1\<close> is registered
  (with an abort controller, so an execution is under way), it does not fail with
  "already running": it replaces the registered execution, runs the commit, sets the status
  to verified, returns success, and its \<open>finally\<close> removes the entry of \<open>f1\<close> from the
  registry although the first execution has not finished.
\<close>

theorem commitFeature_on_registered_id:
  "has (runningFeatures busy_world) ''f1''
   \<and> fst (commitFeature (demo_env [demo_feature ''f1'' WaitingApproval False] True)
            ''/p'' ''f1'' None busy_world) = Inr ()
   \<and> calls (snd (commitFeature (demo_env [demo_feature ''f1'' WaitingApproval False] True)
            ''/p'' ''f1'' None busy_world)) =
       [LoadFeatures ''/p'',
        CommitChangesOnly (demo_feature ''f1'' WaitingApproval False) ''/p'',
        UpdateFeatureStatus ''f1'' Verified ''/p'' None None]
   \<and> runningFeatures
         (snd (commitFeature (demo_env [demo_feature ''f1'' WaitingApproval False] True)
            ''/p'' ''f1'' None busy_world)) = []"
  by code_simp

section \<open>Revert and merge\<close>

text \<open>
  C7. revertFeature on a registered feature first runs stopFeature; let \<open>v\<close> be the state
  that leaves. The id is not in the registry of \<open>v\<close>, and the next call is removeWorktree,
  made in state \<open>v\<close> (its trace entry carries the registry of \<open>v\<close>). When removeWorktree
  answers \<open>success: false\<close>, revertFeature sends the error event and has made no other call;
  it returns the failure (the renderer callback returning normally). Whenever revertFeature
  wrote to the feature store or the context store, removeWorktree had answered
  \<open>success: true\<close>. When it does and the store calls return, the calls that follow are, in
  this order: clear the worktree binding, set the status to backlog, delete the context
  file; with the completion event delivered, revertFeature returns success and has made no
  other call.
\<close>

theorem revertFeature_stops_before_removing:
  assumes "has (runningFeatures w) featureId"
  defines "v \<equiv> snd (stopFeature featureId w)"
  shows "featureId \<notin> set (active_ids v)
   \<and> (\<exists>cs. snd (revertFeature env projectPath featureId sendToRenderer w) =
          extended v (RemoveWorktree projectPath featureId True # cs))
   \<and> (removeWorktree env (after v [RemoveWorktree projectPath featureId True]) =
         Inr (WmFailure err) \<longrightarrow>
       snd (revertFeature env projectPath featureId sendToRenderer w) =
         extended v (RemoveWorktree projectPath featureId True
            # sent sendToRenderer
                (ErrorEvent (or_default err ''Failed to remove worktree'') featureId)
                projectPath)
       \<and> (delivers env sendToRenderer \<longrightarrow>
            revertFeature env projectPath featureId sendToRenderer w =
              (Inr (Failure (or_default err ''Failed to remove worktree'')),
               extended v (RemoveWorktree projectPath featureId True
                 # sent sendToRenderer
                     (ErrorEvent (or_default err ''Failed to remove worktree'') featureId)
                     projectPath))))
   \<and> (filter is_store_write
         (new_calls w (snd (revertFeature env projectPath featureId sendToRenderer w)))
         \<noteq> [] \<longrightarrow>
       (\<exists>removedPath.
          removeWorktree env (after v [RemoveWorktree projectPath featureId True]) =
            Inr (WmSuccess removedPath)))
   \<and> (removeWorktree env (after v [RemoveWorktree projectPath featureId True]) =
         Inr (WmSuccess removedPath) \<longrightarrow>
       updateFeatureWorktree env
         (after v [RemoveWorktree projectPath featureId True,
                   UpdateFeatureWorktree featureId projectPath None None]) = Inr () \<longrightarrow>
       updateFeatureStatus env
         (after v [RemoveWorktree projectPath featureId True,
                   UpdateFeatureWorktree featureId projectPath None None,
                   UpdateFeatureStatus featureId Backlog projectPath None None]) = Inr () \<longrightarrow>
       (\<exists>cs. snd (revertFeature env projectPath featureId sendToRenderer w) =
          extended v (RemoveWorktree projectPath featureId True
                      # UpdateFeatureWorktree featureId projectPath None None
                      # UpdateFeatureStatus featureId Backlog projectPath None None
                      # DeleteContextFile projectPath featureId # cs))
       \<and> (delivers env sendToRenderer \<longrightarrow>
          deleteContextFile env
            (after v [RemoveWorktree projectPath featureId True,
                      UpdateFeatureWorktree featureId projectPath None None,
                      UpdateFeatureStatus featureId Backlog projectPath None None,
                      DeleteContextFile projectPath featureId]) = Inr () \<longrightarrow>
          revertFeature env projectPath featureId sendToRenderer w =
            (Inr (Success removedPath),
             extended v ([RemoveWorktree projectPath featureId True,
                      UpdateFeatureWorktree featureId projectPath None None,
                      UpdateFeatureStatus featureId Backlog projectPath None None,
                      DeleteContextFile projectPath featureId]
               @ sent sendToRenderer
                   (FeatureComplete featureId False ''Feature reverted - all changes discarded'')
                   projectPath))))"
proof -
  let ?aborts = "case map_of (runningFeatures w) featureId of
                   None \<Rightarrow> []
                 | Some ex \<Rightarrow> (case abortController ex of None \<Rightarrow> [] | Some a \<Rightarrow> [Abort a])"
  let ?R = "revertFeature env projectPath featureId sendToRenderer"
  have v_eq: "v = release featureId (extended w ?aborts)"
    using assms by (simp add: stopFeature_active)
  have inactive: "\<not> has (runningFeatures v) featureId"
    by (simp add: v_eq has_delete)
  have same: "?R w = ?R v"
    unfolding v_def using assms(1) by (rule revert_stops_first)
  obtain cs where cs: "snd (?R v) = extended v (RemoveWorktree projectPath featureId True # cs)"
    using revert_calls_removeWorktree_first [OF inactive] by blast
  have quiet: "filter is_store_write ?aborts = []"
    by (simp split: option.splits)
  have "new_calls w (snd (?R v)) = ?aborts @ new_calls v (snd (?R v))"
    by (simp add: cs) (simp add: v_eq)
  then have writes: "filter is_store_write (new_calls w (snd (?R v))) =
                     filter is_store_write (new_calls v (snd (?R v)))"
    by (simp add: quiet)
  have c1: "featureId \<notin> set (active_ids v)"
    using inactive by (simp add: has_active_ids)
  have c2: "\<exists>cs. snd (?R v) = extended v (RemoveWorktree projectPath featureId True # cs)"
    by (rule revert_calls_removeWorktree_first [OF inactive])
  show ?thesis
    unfolding same writes
    apply (intro conjI impI)
           apply (rule c1)
          apply (rule c2)
         apply (erule revert_failure_state [OF inactive])
        apply (erule (1) revert_failure [OF _ inactive])
       apply (erule revert_store_write [OF inactive])
      apply (erule (2) revert_success_order [OF inactive])
     apply (rule revert_success [OF _ inactive]; assumption)
    done
qed

theorem revertFeature_witness:
  "has (runningFeatures busy_world) ''f1''
   \<and> delivers
        ((demo_env [] True)\<lparr>removeWorktree := (answering (WmFailure (Some ''locked'')))\<rparr>)
        (Some 0)
   \<and> revertFeature
        ((demo_env [] True)\<lparr>removeWorktree := (answering (WmFailure (Some ''locked'')))\<rparr>)
        ''/p'' ''f1'' (Some 0) busy_world =
       (Inr (Failure ''locked''),
        \<lparr>runningFeatures = [], projectLoops = [(''/p'', demo_loop)],
         trace = [(Abort 7, [''f1'']),
                  (RemoveWorktree ''/p'' ''f1'' True, []),
                  (SendToRenderer 0 (ErrorEvent ''locked'' ''f1'') ''/p'', [])]\<rparr>)
   \<and> revertFeature (demo_env [] True) ''/p'' ''f1'' None busy_world =
       (Inr (Success ''/p/.worktrees/f1''),
        \<lparr>runningFeatures = [], projectLoops = [(''/p'', demo_loop)],
         trace = [(Abort 7, [''f1'']),
                  (RemoveWorktree ''/p'' ''f1'' True, []),
                  (UpdateFeatureWorktree ''f1'' ''/p'' None None, []),
                  (UpdateFeatureStatus ''f1'' Backlog ''/p'' None None, []),
                  (DeleteContextFile ''/p'' ''f1'', [])]\<rparr>)"
  using revertFeature_stops_before_removing
          [where w = busy_world and featureId = "''f1''"
             and env = "(demo_env [] True)\<lparr>removeWorktree :=
                           (answering (WmFailure (Some ''locked'')))\<rparr>"
             and projectPath = "''/p''" and sendToRenderer = "Some 0"
             and err = "Some ''locked''" and removedPath = "''x''"]
        revertFeature_stops_before_removing
          [where w = busy_world and featureId = "''f1''" and env = "demo_env [] True"
             and projectPath = "''/p''" and sendToRenderer = None
             and err = None and removedPath = "''/p/.worktrees/f1''"]
  by (simp add: demo_defs stopFeature_def has_def release_def extended_def after_def
        active_ids_def record_call_def or_default_def delivers_def)




section \<open>The calls that are not awaited\<close>

text \<open>
  What startFeatureAsync does at its call and what its promise does later make up the whole
  function; followUpFeature and the promise it leaves behind make up the registration
  followed by runFollowUpWork with its \<open>.catch\<close> handler.
\<close>

lemma startFeatureAsync_split:
  "startFeatureAsync env feature projectPath sendToRenderer useWorktrees w =
     (case startFeatureAsync_call env feature projectPath sendToRenderer useWorktrees w of
        (promise, v) \<Rightarrow> settle env promise v)"
  by (simp add: startFeatureAsync_def startFeatureAsync_call_def startFeatureAsync_try_def
        setupWorktreeForFeature_def reportError_def Let_def bnd_def try_catch_def
        try_finally_def await_apply record_call_extended
      split: option.splits sum.splits)

lemma followUpFeature_split:
  "\<not> has (runningFeatures w) featureId \<Longrightarrow>
   followUpFeature env projectPath featureId prompt imagePaths sendToRenderer w =
     (Inr promise, v) \<Longrightarrow>
   settle env promise v =
     followUp_background env projectPath featureId prompt imagePaths sendToRenderer
       (register featureId projectPath sendToRenderer w)"
  by (auto simp: followUpFeature_def followUp_background_def runFollowUpWork_def
        runFollowUpWork_try_def Let_def bnd_def try_catch_def try_finally_def await_apply
        record_call_extended split: sum.splits)

section \<open>Exceptions during an attempt\<close>

text \<open>
  C4, as stated, fails for the two entry points whose work nobody awaits. followUpFeature
  registers the execution, has runFollowUpWork call loadFeatures, and returns success to
  its caller; when the engine then throws, the work that was left behind ends normally:
  the exception reaches no caller. Likewise startFeatureAsync, called by the poll step,
  ends normally when the engine throws.
\<close>

theorem followUp_error_is_not_reraised:
  "followUpFeature
         ((demo_env [demo_feature ''f1'' WaitingApproval False] True)
            \<lparr>resumeFeatureWithContext := failing\<rparr>)
         ''/p'' ''f1'' ''fix the tests'' [] (Some 0) idle_world =
       (Inr (FollowUpWork ''/p'' ''f1'' ''fix the tests'' [] (Some 0)
               (Inr [demo_feature ''f1'' WaitingApproval False])),
        extended (register ''f1'' ''/p'' (Some 0) idle_world) [LoadFeatures ''/p''])
   \<and> fst (settle
          ((demo_env [demo_feature ''f1'' WaitingApproval False] True)
             \<lparr>resumeFeatureWithContext := failing\<rparr>)
          (FollowUpWork ''/p'' ''f1'' ''fix the tests'' [] (Some 0)
             (Inr [demo_feature ''f1'' WaitingApproval False]))
          (extended (register ''f1'' ''/p'' (Some 0) idle_world) [LoadFeatures ''/p''])) = Inr ()
   \<and> fst (startFeatureAsync
          ((demo_env [] True)\<lparr>implementFeature := failing\<rparr>)
          (demo_feature ''f1'' Backlog False) ''/p'' (Some 0) False idle_world) = Inr ()"
  by code_simp

text \<open>
  C4, amended. Let the \<open>try\<close> block of an entry point throw \<open>error\<close> in state \<open>w1\<close>, and
  let the renderer callback return normally. runFeature, verifyFeature and resumeFeature
  then call writeToContextFile with the error's message and stack, call updateFeatureStatus
  with waiting_approval and the error's message (a failure of either call is dropped), emit
  auto_mode_error, throw \<open>error\<close> to their caller and delete the registry entry.
  startFeatureAsync and the work started by followUpFeature make the same calls and delete
  the registry entry, but end normally instead of throwing: followUpFeature has returned
  success before, and the promise it left behind is that work.
\<close>

theorem exception_in_attempt_is_reported:
  "(delivers env sendToRenderer \<longrightarrow> \<not> has (runningFeatures w) featureId \<longrightarrow>
      runFeature_try env projectPath featureId sendToRenderer useWorktrees
        (register featureId projectPath sendToRenderer w) = (Inl error, w1) \<longrightarrow>
      runFeature env projectPath featureId sendToRenderer useWorktrees w =
        (Inl error,
         release featureId
           (extended w1
              ([WriteToContextFile projectPath featureId
                  (ErrorReport (err_message error) (stack_text error)),
                UpdateFeatureStatus featureId WaitingApproval projectPath None
                  (Some (err_message error))]
               @ sent sendToRenderer (ErrorEvent (err_message error) featureId) projectPath))))
   \<and> (delivers env sendToRenderer \<longrightarrow> \<not> has (runningFeatures w) featureId \<longrightarrow>
      verifyFeature_try env projectPath featureId sendToRenderer
        (register featureId projectPath sendToRenderer w) = (Inl error, w1) \<longrightarrow>
      verifyFeature env projectPath featureId sendToRenderer w =
        (Inl error,
         release featureId
           (extended w1
              ([WriteToContextFile projectPath featureId
                  (ErrorReport (err_message error) (stack_text error)),
                UpdateFeatureStatus featureId WaitingApproval projectPath None
                  (Some (err_message error))]
               @ sent sendToRenderer (ErrorEvent (err_message error) featureId) projectPath))))
   \<and> (delivers env sendToRenderer \<longrightarrow> \<not> has (runningFeatures w) featureId \<longrightarrow>
      resumeFeature_try env projectPath featureId sendToRenderer
        (register featureId projectPath sendToRenderer w) = (Inl error, w1) \<longrightarrow>
      resumeFeature env projectPath featureId sendToRenderer w =
        (Inl error,
         release featureId
           (extended w1
              ([WriteToContextFile projectPath featureId
                  (ErrorReport (err_message error) (stack_text error)),
                UpdateFeatureStatus featureId WaitingApproval projectPath None
                  (Some (err_message error))]
               @ sent sendToRenderer (ErrorEvent (err_message error) featureId) projectPath))))
   \<and> (delivers env sendToRenderer \<longrightarrow> \<not> has (runningFeatures w) (f_id feature) \<longrightarrow>
      startFeatureAsync_try env feature projectPath sendToRenderer useWorktrees w =
        (Inl error, w1) \<longrightarrow>
      startFeatureAsync env feature projectPath sendToRenderer useWorktrees w =
        (Inr (),
         release (f_id feature)
           (extended w1
              ([WriteToContextFile projectPath (f_id feature)
                  (ErrorReport (err_message error) (stack_text error)),
                UpdateFeatureStatus (f_id feature) WaitingApproval projectPath None
                  (Some (err_message error))]
               @ sent sendToRenderer (ErrorEvent (err_message error) (f_id feature))
                   projectPath))))
   \<and> (delivers env sendToRenderer \<longrightarrow> \<not> has (runningFeatures w) featureId \<longrightarrow>
      followUpFeature env projectPath featureId prompt imagePaths sendToRenderer w =
        (Inr promise, v) \<longrightarrow>
      runFollowUpWork_try env projectPath featureId prompt imagePaths sendToRenderer
        (register featureId projectPath sendToRenderer w) = (Inl error, w1) \<longrightarrow>
      settle env promise v =
        (Inr (),
         release featureId
           (extended w1
              ([WriteToContextFile projectPath featureId
                  (ErrorReport (err_message error) (stack_text error)),
                UpdateFeatureStatus featureId WaitingApproval projectPath None
                  (Some (err_message error))]
               @ sent sendToRenderer (ErrorEvent (err_message error) featureId) projectPath))))
   \<and> \<not> has (runningFeatures (release featureId w1)) featureId"
  by (intro conjI impI)
     (simp_all add: runFeature_rethrows verifyFeature_rethrows resumeFeature_rethrows
        startFeatureAsync_swallows followUp_swallows followUpFeature_split has_delete)

theorem exception_in_attempt_witness:
  "\<not> has (runningFeatures idle_world) ''f1''
   \<and> delivers ((demo_env [demo_feature ''f1'' Backlog False] True)
                 \<lparr>implementFeature := failing\<rparr>) (Some 0)
   \<and> fst (runFeature
            ((demo_env [demo_feature ''f1'' Backlog False] True)
               \<lparr>implementFeature := failing\<rparr>)
            ''/p'' ''f1'' (Some 0) False idle_world) = Inl demo_error
   \<and> fst (verifyFeature
            ((demo_env [demo_feature ''f1'' Backlog False] True)
               \<lparr>verifyFeatureTests := failing\<rparr>)
            ''/p'' ''f1'' (Some 0) idle_world) = Inl demo_error
   \<and> fst (resumeFeature
            ((demo_env [demo_feature ''f1'' Backlog False] True)
               \<lparr>readContextFile := failing\<rparr>)
            ''/p'' ''f1'' (Some 0) idle_world) = Inl demo_error
   \<and> fst (startFeatureAsync
            ((demo_env [] True)\<lparr>implementFeature := failing\<rparr>)
            (demo_feature ''f1'' Backlog False) ''/p'' (Some 0) False idle_world) = Inr ()
   \<and> calls (snd (startFeatureAsync
            ((demo_env [] True)\<lparr>implementFeature := failing\<rparr>)
            (demo_feature ''f1'' Backlog False) ''/p'' (Some 0) False idle_world)) =
       [UpdateFeatureStatus ''f1'' InProgress ''/p'' None None,
        SendToRenderer 0
          (FeatureStart ''f1''
             ((demo_feature ''f1'' Backlog False)\<lparr>f_worktreePath := Some ''/p''\<rparr>)) ''/p'',
        ImplementFeature (demo_feature ''f1'' Backlog False) ''/p'',
        WriteToContextFile ''/p'' ''f1'' (ErrorReport ''rate limited'' ''at engine''),
        UpdateFeatureStatus ''f1'' WaitingApproval ''/p'' None (Some ''rate limited''),
        SendToRenderer 0 (ErrorEvent ''rate limited'' ''f1'') ''/p'']
   \<and> fst (settle
            ((demo_env [demo_feature ''f1'' WaitingApproval False] True)
               \<lparr>resumeFeatureWithContext := failing\<rparr>)
            (FollowUpWork ''/p'' ''f1'' ''fix the tests'' [] (Some 0)
               (Inr [demo_feature ''f1'' WaitingApproval False]))
            (extended (register ''f1'' ''/p'' (Some 0) idle_world) [LoadFeatures ''/p''])) =
        Inr ()"
proof -
  let ?f = "demo_feature ''f1'' Backlog False"
  let ?g = "demo_feature ''f1'' WaitingApproval False"
  let ?E1 = "(demo_env [?f] True)\<lparr>implementFeature := failing\<rparr>"
  let ?E2 = "(demo_env [?f] True)\<lparr>verifyFeatureTests := failing\<rparr>"
  let ?E3 = "(demo_env [?f] True)\<lparr>readContextFile := failing\<rparr>"
  let ?E4 = "(demo_env [] True)\<lparr>implementFeature := failing\<rparr>"
  let ?E5 = "(demo_env [?g] True)\<lparr>resumeFeatureWithContext := failing\<rparr>"
  let ?w0 = "register ''f1'' ''/p'' (Some 0) idle_world"
  define W1 where "W1 = snd (runFeature_try ?E1 ''/p'' ''f1'' (Some 0) False ?w0)"
  define W2 where "W2 = snd (verifyFeature_try ?E2 ''/p'' ''f1'' (Some 0) ?w0)"
  define W3 where "W3 = snd (resumeFeature_try ?E3 ''/p'' ''f1'' (Some 0) ?w0)"
  define W4 where "W4 = snd (startFeatureAsync_try ?E4 ?f ''/p'' (Some 0) False idle_world)"
  define W5 where
    "W5 = snd (runFollowUpWork_try ?E5 ''/p'' ''f1'' ''fix the tests'' [] (Some 0) ?w0)"
  have free: "\<not> has (runningFeatures idle_world) ''f1''"
    by code_simp
  have free': "\<not> has (runningFeatures idle_world) (f_id ?f)"
    by code_simp
  have d: "delivers ?E1 (Some 0)" "delivers ?E2 (Some 0)" "delivers ?E3 (Some 0)"
    "delivers ?E4 (Some 0)" "delivers ?E5 (Some 0)"
    by (simp_all add: delivers_def demo_env_def)
  have "fst (runFeature_try ?E1 ''/p'' ''f1'' (Some 0) False ?w0) = Inl demo_error"
    by code_simp
  then have t1: "runFeature_try ?E1 ''/p'' ''f1'' (Some 0) False ?w0 = (Inl demo_error, W1)"
    by (simp add: W1_def prod_eq_iff)
  have "fst (verifyFeature_try ?E2 ''/p'' ''f1'' (Some 0) ?w0) = Inl demo_error"
    by code_simp
  then have t2: "verifyFeature_try ?E2 ''/p'' ''f1'' (Some 0) ?w0 = (Inl demo_error, W2)"
    by (simp add: W2_def prod_eq_iff)
  have "fst (resumeFeature_try ?E3 ''/p'' ''f1'' (Some 0) ?w0) = Inl demo_error"
    by code_simp
  then have t3: "resumeFeature_try ?E3 ''/p'' ''f1'' (Some 0) ?w0 = (Inl demo_error, W3)"
    by (simp add: W3_def prod_eq_iff)
  have "fst (startFeatureAsync_try ?E4 ?f ''/p'' (Some 0) False idle_world) = Inl demo_error"
    by code_simp
  then have t4: "startFeatureAsync_try ?E4 ?f ''/p'' (Some 0) False idle_world =
                   (Inl demo_error, W4)"
    by (simp add: W4_def prod_eq_iff)
  have "fst (runFollowUpWork_try ?E5 ''/p'' ''f1'' ''fix the tests'' [] (Some 0) ?w0) =
          Inl demo_error"
    by code_simp
  then have t5: "runFollowUpWork_try ?E5 ''/p'' ''f1'' ''fix the tests'' [] (Some 0) ?w0 =
                   (Inl demo_error, W5)"
    by (simp add: W5_def prod_eq_iff)
  have f5: "followUpFeature ?E5 ''/p'' ''f1'' ''fix the tests'' [] (Some 0) idle_world =
       (Inr (FollowUpWork ''/p'' ''f1'' ''fix the tests'' [] (Some 0) (Inr [?g])),
        extended ?w0 [LoadFeatures ''/p''])"
    by code_simp
  have c4: "calls W4 =
       [UpdateFeatureStatus ''f1'' InProgress ''/p'' None None,
        SendToRenderer 0 (FeatureStart ''f1'' (?f\<lparr>f_worktreePath := Some ''/p''\<rparr>)) ''/p'',
        ImplementFeature ?f ''/p'']"
    unfolding W4_def by code_simp
  have ids: "f_id ?f = ''f1''"
    by (simp add: demo_feature_def)
  have e: "err_message demo_error = ''rate limited''" "stack_text demo_error = ''at engine''"
    by (simp_all add: demo_error_def stack_text_def)
  show ?thesis
    using free d(1)
      exception_in_attempt_is_reported
        [where w = idle_world and featureId = "''f1''" and projectPath = "''/p''"
           and sendToRenderer = "Some 0" and useWorktrees = False and error = demo_error
           and env = ?E1 and ?w1.0 = W1 and feature = ?f
           and prompt = "''fix the tests''" and imagePaths = "[]"
           and promise = "FollowUpWork ''/p'' ''f1'' ''fix the tests'' [] (Some 0) (Inr [?g])"
           and v = "extended ?w0 [LoadFeatures ''/p'']"]
      exception_in_attempt_is_reported
        [where w = idle_world and featureId = "''f1''" and projectPath = "''/p''"
           and sendToRenderer = "Some 0" and useWorktrees = False and error = demo_error
           and env = ?E2 and ?w1.0 = W2 and feature = ?f
           and prompt = "''fix the tests''" and imagePaths = "[]"
           and promise = "FollowUpWork ''/p'' ''f1'' ''fix the tests'' [] (Some 0) (Inr [?g])"
           and v = "extended ?w0 [LoadFeatures ''/p'']"]
      exception_in_attempt_is_reported
        [where w = idle_world and featureId = "''f1''" and projectPath = "''/p''"
           and sendToRenderer = "Some 0" and useWorktrees = False and error = demo_error
           and env = ?E3 and ?w1.0 = W3 and feature = ?f
           and prompt = "''fix the tests''" and imagePaths = "[]"
           and promise = "FollowUpWork ''/p'' ''f1'' ''fix the tests'' [] (Some 0) (Inr [?g])"
           and v = "extended ?w0 [LoadFeatures ''/p'']"]
      exception_in_attempt_is_reported
        [where w = idle_world and featureId = "''f1''" and projectPath = "''/p''"
           and sendToRenderer = "Some 0" and useWorktrees = False and error = demo_error
           and env = ?E4 and ?w1.0 = W4 and feature = ?f
           and prompt = "''fix the tests''" and imagePaths = "[]"
           and promise = "FollowUpWork ''/p'' ''f1'' ''fix the tests'' [] (Some 0) (Inr [?g])"
           and v = "extended ?w0 [LoadFeatures ''/p'']"]
      exception_in_attempt_is_reported
        [where w = idle_world and featureId = "''f1''" and projectPath = "''/p''"
           and sendToRenderer = "Some 0" and useWorktrees = False and error = demo_error
           and env = ?E5 and ?w1.0 = W5 and feature = ?f
           and prompt = "''fix the tests''" and imagePaths = "[]"
           and promise = "FollowUpWork ''/p'' ''f1'' ''fix the tests'' [] (Some 0) (Inr [?g])"
           and v = "extended ?w0 [LoadFeatures ''/p'']"]
    by (simp add: t1 t2 t3 t4 t5 f5 free' d c4 e ids del: settle.simps)
qed

section \<open>The poll step of a project loop\<close>

lemma active_ids_register:
  "set (active_ids (register k p s w)) = insert k (set (active_ids w))"
  by (auto simp: active_ids_def register_def update_keys)

lemma active_ids_register_fresh:
  "k \<notin> set (active_ids w) \<Longrightarrow> active_ids (register k p s w) = active_ids w @ [k]"
  by (simp add: active_ids_def register_def update_keys)

lemma startFeatureAsync_call_Settled:
  "(fst (startFeatureAsync_call env f p s u v) = Settled) = has (runningFeatures v) (f_id f)"
  by (simp add: startFeatureAsync_call_def Let_def split: option.splits)

lemma startFeatureAsync_call_skips:
  "has (runningFeatures v) (f_id f) \<Longrightarrow> startFeatureAsync_call env f p s u v = (Settled, v)"
  by (simp add: startFeatureAsync_call_def)

lemma startFeatureAsync_call_starts:
  "f_id f \<notin> set (active_ids v) \<Longrightarrow> f_description f \<noteq> None \<Longrightarrow>
   startFeatureAsync_call env f p s False v = (StartSetupDone f p s, register (f_id f) p s v)"
  by (auto simp: startFeatureAsync_call_def has_active_ids)

lemma startFeatureAsync_call_fields:
  "projectLoops (snd (startFeatureAsync_call env f p s u w)) = projectLoops w"
  "set (active_ids (snd (startFeatureAsync_call env f p s u w))) =
     (if f_description f = None then set (active_ids w)
      else insert (f_id f) (set (active_ids w)))"
  by (auto simp: startFeatureAsync_call_def active_ids_register has_active_ids Let_def
        record_call_extended split: option.splits)

lemma calls_register [simp]: "calls (register k p s w) = calls w"
  by (simp add: calls_def)

lemma startFeatureAsync_call_calls:
  "\<exists>cs. calls (snd (startFeatureAsync_call env f p s u w)) = calls w @ cs
        \<and> filter is_engine_call cs = []"
proof (cases "has (runningFeatures w) (f_id f)")
  case True
  then show ?thesis by (simp add: startFeatureAsync_call_skips)
next
  case False
  show ?thesis
  proof (cases "f_description f")
    case None
    with False show ?thesis
      by (simp add: startFeatureAsync_call_def record_call_extended)
  next
    case (Some d)
    show ?thesis
    proof (cases u)
      case True
      have "calls (snd (startFeatureAsync_call env f p s u w)) = calls w @ [IsGitRepo p]"
        using False Some True
        by (simp add: startFeatureAsync_call_def Let_def record_call_extended calls_register)
      then show ?thesis by simp
    next
      case False
      with \<open>\<not> has (runningFeatures w) (f_id f)\<close> Some show ?thesis
        by (simp add: startFeatureAsync_call_def Let_def calls_register)
    qed
  qed
qed

lemma start_each_Cons:
  "start_each env (f # fs) p s w =
     ((f, fst (startFeatureAsync_call env f p s False w))
        # fst (start_each env fs p s (snd (startFeatureAsync_call env f p s False w))),
      snd (start_each env fs p s (snd (startFeatureAsync_call env f p s False w))))"
  by (simp split: prod.splits)

lemma start_each_features: "map fst (fst (start_each env fs p s w)) = fs"
  by (induction fs arbitrary: w) (simp_all add: start_each_Cons del: start_each.simps(2))

lemma start_each_fields:
  "projectLoops (snd (start_each env fs p s w)) = projectLoops w"
  "set (active_ids (snd (start_each env fs p s w))) =
     set (active_ids w) \<union> f_id ` {f \<in> set fs. f_description f \<noteq> None}"
  by (induction fs arbitrary: w)
     (auto simp: start_each_Cons startFeatureAsync_call_fields simp del: start_each.simps(2))

lemma start_each_calls:
  "\<exists>cs. calls (snd (start_each env fs p s w)) = calls w @ cs \<and> filter is_engine_call cs = []"
proof (induction fs arbitrary: w)
  case Nil
  show ?case by simp
next
  case (Cons f fs)
  obtain cs where cs:
    "calls (snd (startFeatureAsync_call env f p s False w)) = calls w @ cs"
    "filter is_engine_call cs = []"
    using startFeatureAsync_call_calls by blast
  obtain ds where ds:
    "calls (snd (start_each env fs p s (snd (startFeatureAsync_call env f p s False w)))) =
       calls (snd (startFeatureAsync_call env f p s False w)) @ ds"
    "filter is_engine_call ds = []"
    using Cons.IH by blast
  have "calls (snd (start_each env (f # fs) p s w)) = calls w @ (cs @ ds)"
    by (simp add: start_each_Cons cs(1) ds(1) del: start_each.simps(2))
  moreover have "filter is_engine_call (cs @ ds) = []"
    by (simp add: cs(2) ds(2))
  ultimately show ?case by blast
qed

lemma start_each_no_engine_call:
  "filter is_engine_call (new_calls w (snd (start_each env fs p s (extended w cs)))) =
     filter is_engine_call cs"
proof -
  obtain ds where ds:
    "calls (snd (start_each env fs p s (extended w cs))) = calls (extended w cs) @ ds"
    "filter is_engine_call ds = []"
    using start_each_calls by blast
  have "length (trace w) = length (calls w)"
    by (simp add: calls_def)
  then show ?thesis
    by (simp add: new_calls_def ds)
qed

lemma start_each_Settled:
  "i < length fs \<Longrightarrow>
   (snd (fst (start_each env fs p s w) ! i) = Settled) =
     (f_id (fs ! i) \<in> set (active_ids w)
                       \<union> f_id ` {g \<in> set (take i fs). f_description g \<noteq> None})"
proof (induction fs arbitrary: w i)
  case Nil
  then show ?case by simp
next
  case (Cons f fs)
  show ?case
  proof (cases i)
    case 0
    then show ?thesis
      by (simp add: start_each_Cons startFeatureAsync_call_Settled has_active_ids
            del: start_each.simps(2))
  next
    case (Suc j)
    with Cons.prems have j: "j < length fs" by simp
    show ?thesis
      unfolding Suc
      by (simp add: start_each_Cons Cons.IH [OF j] startFeatureAsync_call_fields
            del: start_each.simps(2))
         auto
  qed
qed

lemma start_each_fresh:
  "distinct (map f_id fs) \<Longrightarrow>
   \<forall>f\<in>set fs. f_id f \<notin> set (active_ids w) \<and> f_description f \<noteq> None \<Longrightarrow>
   fst (start_each env fs p s w) = map (\<lambda>f. (f, StartSetupDone f p s)) fs
   \<and> active_ids (snd (start_each env fs p s w)) = active_ids w @ map f_id fs
   \<and> trace (snd (start_each env fs p s w)) = trace w"
proof (induction fs arbitrary: w)
  case Nil
  show ?case by simp
next
  case (Cons f fs)
  from Cons.prems have f: "f_id f \<notin> set (active_ids w)" "f_description f \<noteq> None"
    by simp_all
  have call: "startFeatureAsync_call env f p s False w =
                (StartSetupDone f p s, register (f_id f) p s w)"
    using f by (rule startFeatureAsync_call_starts)
  have "\<forall>g\<in>set fs. f_id g \<notin> set (active_ids (register (f_id f) p s w))
                    \<and> f_description g \<noteq> None"
    using Cons.prems by (auto simp: active_ids_register) (metis image_eqI)
  moreover have "distinct (map f_id fs)"
    using Cons.prems by simp
  ultimately have IH:
    "fst (start_each env fs p s (register (f_id f) p s w)) =
       map (\<lambda>f. (f, StartSetupDone f p s)) fs
     \<and> active_ids (snd (start_each env fs p s (register (f_id f) p s w))) =
         active_ids (register (f_id f) p s w) @ map f_id fs
     \<and> trace (snd (start_each env fs p s (register (f_id f) p s w))) =
         trace (register (f_id f) p s w)"
    using Cons.IH by blast
  show ?case
    by (simp add: start_each_Cons call IH active_ids_register_fresh [OF f(1)]
          del: start_each.simps(2))
qed

lemma take_slots:
  "0 < slots \<Longrightarrow> int (length (take (nat slots) xs)) = min slots (int (length xs))"
  by (simp add: min_def) linarith

text \<open>
  C2, as stated, fails. Feature \<open>f1\<close> of project \<open>/p\<close> is registered (an execution of it is
  under way) while the store still lists it as backlog, ahead of \<open>f2\<close>. The loop of \<open>/p\<close>
  allows two executions, so one slot is free and two features are in the backlog. The poll
  calls startFeatureAsync on \<open>f1\<close> only; that call is skipped, its promise is settled at
  once, and the registry is as before: no feature was started, not one.
\<close>

theorem poll_starts_fewer_than_free_slots:
  "map_of (projectLoops busy_world) ''/p'' = Some demo_loop
   \<and> isRunning demo_loop
   \<and> maxConcurrency demo_loop - int (getRunningCountForProject busy_world ''/p'') = 1
   \<and> checkAndStartFeaturesForProject
        (demo_env [demo_feature ''f1'' Backlog False, demo_feature ''f2'' Backlog False] True)
        ''/p'' busy_world =
       ([(demo_feature ''f1'' Backlog False, Settled)],
        extended busy_world [LoadFeatures ''/p''])
   \<and> runningFeatures (extended busy_world [LoadFeatures ''/p'']) = runningFeatures busy_world"
  by code_simp

text \<open>
  C2, amended. Let the loop of the project be running and let \<open>availableSlots\<close> be
  maxConcurrency minus the number of registry entries whose execution has this project's
  path. If \<open>availableSlots \<le> 0\<close> the poll returns with the state unchanged and without any
  call. Otherwise it loads the features; if loading throws or no feature has status backlog
  it returns having started nothing, the state unchanged but for the recorded call to
  loadFeatures. Otherwise it calls startFeatureAsync on the first
  \<open>min(availableSlots, number of backlog features)\<close> backlog features in the order of the
  store and awaits none of them: no engine call has been made when it returns. Such a call
  is skipped (its promise is settled at once and nothing changes) exactly when the
  feature's id is in the registry at that moment, that is, was registered before the poll
  or by an earlier call of the same poll. When the chosen features have distinct ids, none
  of them registered, and each has a description, every one of them is started: it is
  registered, in order, its promise is pending, and loadFeatures is the only call made.
\<close>

theorem checkAndStartFeaturesForProject_fills_free_slots:
  fixes env :: env
  assumes "map_of (projectLoops w) projectPath = Some projectState"
    and "isRunning projectState"
  defines "availableSlots \<equiv>
             maxConcurrency projectState
             - int (length (filter (\<lambda>(featureId, ex). ex_projectPath ex = Some projectPath)
                              (runningFeatures w)))"
  defines "polled \<equiv> checkAndStartFeaturesForProject env projectPath w"
  shows "(availableSlots \<le> 0 \<longrightarrow> polled = ([], w))
   \<and> (0 < availableSlots \<longrightarrow>
        loadFeatures env (after w [LoadFeatures projectPath]) = Inl error \<longrightarrow>
        polled = ([], extended w [LoadFeatures projectPath]))
   \<and> (0 < availableSlots \<longrightarrow>
        loadFeatures env (after w [LoadFeatures projectPath]) = Inr features \<longrightarrow>
        filter (\<lambda>f. f_status f = Backlog) features = [] \<longrightarrow>
        polled = ([], extended w [LoadFeatures projectPath]))
   \<and> (0 < availableSlots \<longrightarrow>
        loadFeatures env (after w [LoadFeatures projectPath]) = Inr features \<longrightarrow>
        filter (\<lambda>f. f_status f = Backlog) features \<noteq> [] \<longrightarrow>
        chosen = take (nat availableSlots) (filter (\<lambda>f. f_status f = Backlog) features) \<longrightarrow>
        map fst (fst polled) = chosen
      \<and> int (length (fst polled)) =
          min availableSlots (int (length (filter (\<lambda>f. f_status f = Backlog) features)))
      \<and> projectLoops (snd polled) = projectLoops w
      \<and> filter is_engine_call (new_calls w (snd polled)) = []
      \<and> set (active_ids (snd polled)) =
          set (active_ids w) \<union> f_id ` {f \<in> set chosen. f_description f \<noteq> None}
      \<and> (\<forall>i<length chosen.
            (snd (fst polled ! i) = Settled) =
              (f_id (chosen ! i) \<in> set (active_ids w)
                 \<union> f_id ` {g \<in> set (take i chosen). f_description g \<noteq> None}))
      \<and> (distinct (map f_id chosen) \<longrightarrow>
          (\<forall>f\<in>set chosen. f_id f \<notin> set (active_ids w) \<and> f_description f \<noteq> None) \<longrightarrow>
            fst polled =
              map (\<lambda>f. (f, StartSetupDone f projectPath (loop_sendToRenderer projectState)))
                chosen
          \<and> active_ids (snd polled) = active_ids w @ map f_id chosen
          \<and> new_calls w (snd polled) = [LoadFeatures projectPath]))
   \<and> (has (runningFeatures v) (f_id feature) \<longrightarrow>
        startFeatureAsync_call env feature projectPath sendToRenderer False v = (Settled, v))"
proof -
  have len: "length (fst (start_each env fs p s v)) = length fs" for fs p s v
    using start_each_features [of env fs p s v] by (metis length_map)
  have fresh_calls:
    "new_calls w (snd (start_each env fs p s (extended w cs))) = cs"
    if "distinct (map f_id fs)"
      and "\<forall>f\<in>set fs. f_id f \<notin> set (active_ids w) \<and> f_description f \<noteq> None"
    for fs p s cs
  proof -
    have "trace (snd (start_each env fs p s (extended w cs))) = trace (extended w cs)"
      using start_each_fresh [of fs "extended w cs" env p s] that by simp
    then show ?thesis
      by (simp add: new_calls_def calls_def after_def comp_def)
  qed
  have fresh:
    "fst (start_each env fs p s (extended w cs)) = map (\<lambda>f. (f, StartSetupDone f p s)) fs
     \<and> active_ids (snd (start_each env fs p s (extended w cs))) = active_ids w @ map f_id fs"
    if "distinct (map f_id fs)"
      and "\<forall>f\<in>set fs. f_id f \<notin> set (active_ids w) \<and> f_description f \<noteq> None"
    for fs p s cs
    using start_each_fresh [of fs "extended w cs" env p s] that by simp
  show ?thesis
    using assms(1,2)
    unfolding polled_def availableSlots_def checkAndStartFeaturesForProject_def
    by (simp add: Let_def await_apply start_each_features start_each_fields
          start_each_no_engine_call start_each_Settled fresh fresh_calls
          startFeatureAsync_call_skips getRunningCountForProject_def
          len take_slots del: length_take)
qed

theorem checkAndStartFeaturesForProject_witness:
  "map_of (projectLoops idle_world) ''/p'' = Some demo_loop
   \<and> isRunning demo_loop
   \<and> loadFeatures
         (demo_env [demo_feature ''A'' Backlog False, demo_feature ''B'' InProgress False,
                    demo_feature ''C'' Backlog False, demo_feature ''D'' Backlog True] True)
         (after idle_world [LoadFeatures ''/p'']) =
       Inr [demo_feature ''A'' Backlog False, demo_feature ''B'' InProgress False,
            demo_feature ''C'' Backlog False, demo_feature ''D'' Backlog True]
   \<and> fst (checkAndStartFeaturesForProject
         (demo_env [demo_feature ''A'' Backlog False, demo_feature ''B'' InProgress False,
                    demo_feature ''C'' Backlog False, demo_feature ''D'' Backlog True] True)
         ''/p'' idle_world) =
       [(demo_feature ''A'' Backlog False,
         StartSetupDone (demo_feature ''A'' Backlog False) ''/p'' (Some 0)),
        (demo_feature ''C'' Backlog False,
         StartSetupDone (demo_feature ''C'' Backlog False) ''/p'' (Some 0))]
   \<and> active_ids (snd (checkAndStartFeaturesForProject
         (demo_env [demo_feature ''A'' Backlog False, demo_feature ''B'' InProgress False,
                    demo_feature ''C'' Backlog False, demo_feature ''D'' Backlog True] True)
         ''/p'' idle_world)) = [''A'', ''C'']
   \<and> new_calls idle_world (snd (checkAndStartFeaturesForProject
         (demo_env [demo_feature ''A'' Backlog False, demo_feature ''B'' InProgress False,
                    demo_feature ''C'' Backlog False, demo_feature ''D'' Backlog True] True)
         ''/p'' idle_world)) = [LoadFeatures ''/p'']
   \<and> checkAndStartFeaturesForProject (demo_env [demo_feature ''A'' Backlog False] True) ''/p''
         (register ''f2'' ''/p'' None busy_world) =
       ([], register ''f2'' ''/p'' None busy_world)
   \<and> has (runningFeatures busy_world) (f_id (demo_feature ''f1'' Backlog False))
   \<and> startFeatureAsync_call (demo_env [] True) (demo_feature ''f1'' Backlog False) ''/p''
        (Some 0) False busy_world = (Settled, busy_world)"
proof -
  let ?fs = "[demo_feature ''A'' Backlog False, demo_feature ''B'' InProgress False,
              demo_feature ''C'' Backlog False, demo_feature ''D'' Backlog True]"
  have loop: "map_of (projectLoops idle_world) ''/p'' = Some demo_loop"
    by code_simp
  have loop2: "map_of (projectLoops (register ''f2'' ''/p'' None busy_world)) ''/p'' =
               Some demo_loop"
    by code_simp
  have running: "isRunning demo_loop"
    by code_simp
  have slots: "maxConcurrency demo_loop
               - int (length (filter (\<lambda>(featureId, ex). ex_projectPath ex = Some ''/p'')
                                (runningFeatures idle_world))) = 2"
    by code_simp
  have full: "maxConcurrency demo_loop
              \<le> int (length (filter (\<lambda>(featureId, ex). ex_projectPath ex = Some ''/p'')
                                (runningFeatures (register ''f2'' ''/p'' None busy_world))))"
    by code_simp
  have loaded: "loadFeatures (demo_env ?fs True) (after idle_world [LoadFeatures ''/p'']) =
                Inr ?fs"
    by (simp add: demo_env_def)
  have backlog: "filter (\<lambda>f. f_status f = Backlog) ?fs =
                 [demo_feature ''A'' Backlog False, demo_feature ''C'' Backlog False,
                  demo_feature ''D'' Backlog True]"
    by (simp add: demo_feature_def)
  have ids: "f_id (demo_feature i st sk) = i" "f_status (demo_feature i st sk) = st"
    "f_description (demo_feature i st sk) = Some ''add a login page''" for i st sk
    by (simp_all add: demo_feature_def)
  have empty: "active_ids idle_world = []"
    by (simp add: active_ids_def idle_world_def)
  have sink: "loop_sendToRenderer demo_loop = Some 0"
    by (simp add: demo_loop_def)
  have busy: "has (runningFeatures busy_world) ''f1''"
    by code_simp
  show ?thesis
    using checkAndStartFeaturesForProject_fills_free_slots
            [OF loop running,
             where env = "demo_env ?fs True" and features = ?fs and error = demo_error
               and chosen = "[demo_feature ''A'' Backlog False, demo_feature ''C'' Backlog False]"
               and v = busy_world and feature = "demo_feature ''f1'' Backlog False"
               and sendToRenderer = "Some 0"]
          checkAndStartFeaturesForProject_fills_free_slots
            [OF loop2 running,
             where env = "demo_env [demo_feature ''A'' Backlog False] True"
               and features = "[]" and error = demo_error and chosen = "[]"
               and v = busy_world and feature = "demo_feature ''f1'' Backlog False"
               and sendToRenderer = "Some 0"]
          checkAndStartFeaturesForProject_fills_free_slots
            [OF loop running,
             where env = "demo_env [] True" and features = "[]" and error = demo_error
               and chosen = "[]"
               and v = busy_world and feature = "demo_feature ''f1'' Backlog False"
               and sendToRenderer = "Some 0"]
    by (simp add: loop running slots full loaded ids empty sink busy)
qed

section \<open>Interpretation of the engine's result\<close>

lemma persisted_status_append:
  "persisted_status (xs @ ys) i acc = persisted_status ys i (persisted_status xs i acc)"
  by (induction xs i acc rule: persisted_status.induct) simp_all

lemma persisted_status_sent [simp]: "persisted_status (sent s ev p) i acc = acc"
  by (cases s) simp_all

lemma await_Inr:
  "await c a w = (Inr x, w') \<longleftrightarrow> a (after w [c]) = Inr x \<and> w' = extended w [c]"
  by (auto simp: await_apply)

lemma find_id: "find (\<lambda>f. f_id f = i) fs = Some f \<Longrightarrow> f_id f = i"
  by (auto simp: find_Some_iff)

lemma bnd_throw_Inr [simp]: "bnd m (\<lambda>_. throw e) w \<noteq> (Inr x, w')"
  by (auto simp: bnd_def split: prod.splits sum.splits)

lemma finish_attempt:
  "bnd (await (UpdateFeatureStatus i st p None None) (updateFeatureStatus env))
     (\<lambda>_. bnd (emitEvent env p s ev) (\<lambda>_. ret x)) v = (Inr y, w') \<Longrightarrow>
   y = x \<and> persisted_status (calls w') i acc = Some st"
  by (auto simp: bnd_await bnd_emitEvent_cases persisted_status_append split: sum.splits)

lemma runFeature_try_Inr:
  "runFeature_try env projectPath featureId sendToRenderer useWorktrees w = (Inr ps, w') \<Longrightarrow>
   \<exists>features feature.
           loadFeatures env (after w [LoadFeatures projectPath]) = Inr features
         \<and> find (\<lambda>f. f_id f = featureId) features = Some feature
         \<and> (\<exists>tr r. implementFeature env tr = Inr r \<and> passes r = ps)
         \<and> persisted_status (calls w') featureId None =
             Some (if ps then (if f_skipTests feature then WaitingApproval else Verified)
                   else WaitingApproval)"
  unfolding runFeature_try_def
  apply (erule bnd_InrE)
  apply (clarsimp simp: await_Inr split: option.splits split del: if_split)
  apply (erule bnd_InrE, erule bnd_InrE, erule bnd_InrE, erule bnd_InrE, erule bnd_InrE)
  apply (drule finish_attempt [where acc = None])
  apply (frule find_id)
  apply (clarsimp simp: await_Inr split del: if_split)
  apply blast
  done

lemma startFeatureAsync_afterSetup_Inr:
  "startFeatureAsync_afterSetup env feature projectPath sendToRenderer worktreeSetup w =
     (Inr r, w') \<Longrightarrow>
   (\<exists>tr. implementFeature env tr = Inr r)
   \<and> persisted_status (calls w') (f_id feature) None =
       Some (if passes r then (if f_skipTests feature then WaitingApproval else Verified)
             else WaitingApproval)"
  unfolding startFeatureAsync_afterSetup_def
  apply (erule bnd_InrE, erule bnd_InrE, erule bnd_InrE, erule bnd_InrE)
  apply (drule finish_attempt [where acc = None])
  apply (clarsimp simp: await_Inr split del: if_split)
  apply blast
  done

lemma startFeatureAsync_try_Inr:
  "startFeatureAsync_try env feature projectPath sendToRenderer useWorktrees w = (Inr r, w') \<Longrightarrow>
   (\<exists>tr. implementFeature env tr = Inr r)
   \<and> persisted_status (calls w') (f_id feature) None =
       Some (if passes r then (if f_skipTests feature then WaitingApproval else Verified)
             else WaitingApproval)"
  unfolding startFeatureAsync_try_def
  apply (cases "f_description feature")
   apply simp
  apply (simp split del: if_split)
  apply (erule bnd_InrE)
  apply (erule startFeatureAsync_afterSetup_Inr)
  done

lemma retry_step_Inr:
  "bnd (await (WriteToContextFile p i (AutoRetryMarker n)) (writeToContextFile env)) (\<lambda>_.
   bnd (emitEvent env p s ev) (\<lambda>_.
   bnd (await (ReadContextFile p i) (readContextFile env)) (\<lambda>retryContext.
   await (ResumeFeatureWithContext f p retryContext) (resumeFeatureWithContext env)))) w1 =
     (Inr r, w2) \<Longrightarrow>
   \<exists>tr. resumeFeatureWithContext env tr = Inr r"
  apply (erule bnd_InrE, erule bnd_InrE, erule bnd_InrE)
  apply (clarsimp simp: await_Inr)
  apply blast
  done

lemma resumeRetryLoop_result:
  "resumeRetryLoop env projectPath featureId sendToRenderer feature attempts finalResult w =
     (Inr r, w') \<Longrightarrow>
   r = finalResult \<or> (\<exists>tr. resumeFeatureWithContext env tr = Inr r)"
proof (induction "maxAttempts - attempts" arbitrary: attempts finalResult w)
  case 0
  then show ?case
    by (subst (asm) resumeRetryLoop.simps) simp
next
  case (Suc k)
  from Suc.prems Suc.hyps(2) show ?case
    apply (subst (asm) resumeRetryLoop.simps)
    apply (clarsimp simp: await_apply split: if_splits sum.splits option.splits prod.splits)
    apply (frule retry_step_Inr)
    apply (drule Suc.hyps(1) [rotated])
     apply arith
    apply auto
    done
qed

lemma resumeFeature_try_Inr:
  "resumeFeature_try env projectPath featureId sendToRenderer w = (Inr ps, w') \<Longrightarrow>
   \<exists>features feature.
           loadFeatures env (after w [LoadFeatures projectPath]) = Inr features
         \<and> find (\<lambda>f. f_id f = featureId) features = Some feature
         \<and> (\<exists>tr r. resumeFeatureWithContext env tr = Inr r \<and> passes r = ps)
         \<and> persisted_status (calls w') featureId None =
             Some (if ps then (if f_skipTests feature then WaitingApproval else Verified)
                   else WaitingApproval)"
  unfolding resumeFeature_try_def
  apply (erule bnd_InrE)
  apply (clarsimp simp: await_Inr split: option.splits split del: if_split)
  apply (erule bnd_InrE, erule bnd_InrE, erule bnd_InrE, erule bnd_InrE)
  apply (drule finish_attempt [where acc = None])
  apply (drule resumeRetryLoop_result)
  apply (clarsimp simp: await_Inr split del: if_split)
  apply blast
  done

lemma runFollowUpWork_try_Inr:
  "runFollowUpWork_try env projectPath featureId prompt imagePaths sendToRenderer w =
     (Inr r, w') \<Longrightarrow>
   \<exists>features feature.
           loadFeatures env (after w [LoadFeatures projectPath]) = Inr features
         \<and> find (\<lambda>f. f_id f = featureId) features = Some feature
         \<and> (\<exists>tr. resumeFeatureWithContext env tr = Inr r)
         \<and> persisted_status (calls w') featureId None =
             Some (if passes r then (if f_skipTests feature then WaitingApproval else Verified)
                   else WaitingApproval)"
  unfolding runFollowUpWork_try_def runFollowUpWork_afterLoad_def
  apply (erule bnd_InrE)
  apply (clarsimp simp: await_Inr split: option.splits split del: if_split)
  apply (erule bnd_InrE, erule bnd_InrE, erule bnd_InrE, erule bnd_InrE, erule bnd_InrE)
  apply (drule finish_attempt [where acc = None])
  apply (frule find_id)
  apply (clarsimp simp: await_Inr split del: if_split)
  apply blast
  done

lemma runFeature_Inr:
  "runFeature env projectPath featureId sendToRenderer useWorktrees w = (Inr ps, w') \<Longrightarrow>
   \<exists>w1. runFeature_try env projectPath featureId sendToRenderer useWorktrees
          (register featureId projectPath sendToRenderer w) = (Inr ps, w1)
        \<and> calls w' = calls w1"
  by (auto simp: runFeature_def try_finally_def try_catch_def
           split: if_splits prod.splits sum.splits)

lemma resumeFeature_Inr:
  "resumeFeature env projectPath featureId sendToRenderer w = (Inr ps, w') \<Longrightarrow>
   \<exists>w1. resumeFeature_try env projectPath featureId sendToRenderer
          (register featureId projectPath sendToRenderer w) = (Inr ps, w1)
        \<and> calls w' = calls w1"
  by (auto simp: resumeFeature_def try_finally_def try_catch_def
           split: if_splits prod.splits sum.splits)

lemma after_register [simp]:
  "after (register k p s w) cs = trace w @ map (\<lambda>c. (c, active_ids (register k p s w))) cs"
  by (simp add: after_def)

text \<open>
  C3. When an implementation attempt ends without an exception, the status last written
  to the store for the feature is: waiting_approval if the engine's result passes and the
  feature has skipTests; verified if it passes and the feature has not; waiting_approval if
  it does not pass (so never backlog). This holds for runFeature and resumeFeature (which
  return \<open>passes\<close> to their caller), for the \<open>try\<close> block of startFeatureAsync and for the
  \<open>try\<close> block of the follow-up work.
\<close>

theorem attempt_result_decides_status:
  "(runFeature env projectPath featureId sendToRenderer useWorktrees w = (Inr ps, w') \<longrightarrow>
      (\<exists>features feature.
          loadFeatures env
            (after (register featureId projectPath sendToRenderer w) [LoadFeatures projectPath])
            = Inr features
        \<and> find (\<lambda>f. f_id f = featureId) features = Some feature
        \<and> (\<exists>tr r. implementFeature env tr = Inr r \<and> passes r = ps)
        \<and> persisted_status (calls w') featureId None =
            Some (if ps then (if f_skipTests feature then WaitingApproval else Verified)
                  else WaitingApproval)))
   \<and> (startFeatureAsync_try env feature projectPath sendToRenderer useWorktrees w =
        (Inr r, w') \<longrightarrow>
      (\<exists>tr. implementFeature env tr = Inr r)
      \<and> persisted_status (calls w') (f_id feature) None =
          Some (if passes r then (if f_skipTests feature then WaitingApproval else Verified)
                else WaitingApproval))
   \<and> (resumeFeature env projectPath featureId sendToRenderer w = (Inr ps, w') \<longrightarrow>
      (\<exists>features feature.
          loadFeatures env
            (after (register featureId projectPath sendToRenderer w) [LoadFeatures projectPath])
            = Inr features
        \<and> find (\<lambda>f. f_id f = featureId) features = Some feature
        \<and> (\<exists>tr r. resumeFeatureWithContext env tr = Inr r \<and> passes r = ps)
        \<and> persisted_status (calls w') featureId None =
            Some (if ps then (if f_skipTests feature then WaitingApproval else Verified)
                  else WaitingApproval)))
   \<and> (runFollowUpWork_try env projectPath featureId prompt imagePaths sendToRenderer w =
        (Inr r, w') \<longrightarrow>
      (\<exists>features feature.
          loadFeatures env (after w [LoadFeatures projectPath]) = Inr features
        \<and> find (\<lambda>f. f_id f = featureId) features = Some feature
        \<and> (\<exists>tr. resumeFeatureWithContext env tr = Inr r)
        \<and> persisted_status (calls w') featureId None =
            Some (if passes r then (if f_skipTests feature then WaitingApproval else Verified)
                  else WaitingApproval)))"
proof (intro conjI impI)
  assume "runFeature env projectPath featureId sendToRenderer useWorktrees w = (Inr ps, w')"
  then obtain w1 where
    "runFeature_try env projectPath featureId sendToRenderer useWorktrees
       (register featureId projectPath sendToRenderer w) = (Inr ps, w1)"
    and "calls w' = calls w1"
    using runFeature_Inr by blast
  then show "\<exists>features feature.
          loadFeatures env
            (after (register featureId projectPath sendToRenderer w) [LoadFeatures projectPath])
            = Inr features
        \<and> find (\<lambda>f. f_id f = featureId) features = Some feature
        \<and> (\<exists>tr r. implementFeature env tr = Inr r \<and> passes r = ps)
        \<and> persisted_status (calls w') featureId None =
            Some (if ps then (if f_skipTests feature then WaitingApproval else Verified)
                  else WaitingApproval)"
    using runFeature_try_Inr [of env projectPath featureId sendToRenderer useWorktrees
                                 "register featureId projectPath sendToRenderer w" ps w1]
    by simp
next
  assume "resumeFeature env projectPath featureId sendToRenderer w = (Inr ps, w')"
  then obtain w1 where
    "resumeFeature_try env projectPath featureId sendToRenderer
       (register featureId projectPath sendToRenderer w) = (Inr ps, w1)"
    and "calls w' = calls w1"
    using resumeFeature_Inr by blast
  then show "\<exists>features feature.
          loadFeatures env
            (after (register featureId projectPath sendToRenderer w) [LoadFeatures projectPath])
            = Inr features
        \<and> find (\<lambda>f. f_id f = featureId) features = Some feature
        \<and> (\<exists>tr r. resumeFeatureWithContext env tr = Inr r \<and> passes r = ps)
        \<and> persisted_status (calls w') featureId None =
            Some (if ps then (if f_skipTests feature then WaitingApproval else Verified)
                  else WaitingApproval)"
    using resumeFeature_try_Inr [of env projectPath featureId sendToRenderer
                                   "register featureId projectPath sendToRenderer w" ps w1]
    by simp
qed ((blast dest: startFeatureAsync_try_Inr)+, erule runFollowUpWork_try_Inr)

theorem attempt_result_witness:
  "fst (runFeature (demo_env [demo_feature ''f1'' Backlog False] True)
          ''/p'' ''f1'' None False idle_world) = Inr True
   \<and> persisted_status
         (calls (snd (runFeature (demo_env [demo_feature ''f1'' Backlog False] True)
                        ''/p'' ''f1'' None False idle_world))) ''f1'' None = Some Verified
   \<and> fst (startFeatureAsync_try (demo_env [] True) (demo_feature ''f1'' Backlog True)
            ''/p'' None False idle_world) =
       Inr \<lparr>passes = True, res_message = ''finished''\<rparr>
   \<and> persisted_status
         (calls (snd (startFeatureAsync_try (demo_env [] True)
                        (demo_feature ''f1'' Backlog True)
                        ''/p'' None False idle_world)))
         ''f1'' None = Some WaitingApproval
   \<and> fst (resumeFeature (demo_env [demo_feature ''f1'' InProgress True] True)
            ''/p'' ''f1'' None idle_world) = Inr True
   \<and> persisted_status
         (calls (snd (resumeFeature (demo_env [demo_feature ''f1'' InProgress True] True)
                        ''/p'' ''f1'' None idle_world))) ''f1'' None = Some WaitingApproval
   \<and> fst (runFollowUpWork_try (demo_env [demo_feature ''f1'' WaitingApproval False] False)
            ''/p'' ''f1'' ''fix the tests'' [] None
            (register ''f1'' ''/p'' None idle_world)) =
       Inr \<lparr>passes = False, res_message = ''finished''\<rparr>
   \<and> persisted_status
         (calls (snd (runFollowUpWork_try
                        (demo_env [demo_feature ''f1'' WaitingApproval False] False)
                        ''/p'' ''f1'' ''fix the tests'' [] None
                        (register ''f1'' ''/p'' None idle_world)))) ''f1'' None =
       Some WaitingApproval"
proof -
  let ?E1 = "demo_env [demo_feature ''f1'' Backlog False] True"
  let ?E2 = "demo_env [] True"
  let ?E3 = "demo_env [demo_feature ''f1'' InProgress True] True"
  let ?E4 = "demo_env [demo_feature ''f1'' WaitingApproval False] False"
  let ?w0 = "register ''f1'' ''/p'' None idle_world"
  let ?ok = "\<lparr>passes = True, res_message = ''finished''\<rparr>"
  let ?ko = "\<lparr>passes = False, res_message = ''finished''\<rparr>"
  define W1 where "W1 = snd (runFeature ?E1 ''/p'' ''f1'' None False idle_world)"
  define W2 where
    "W2 = snd (startFeatureAsync_try ?E2 (demo_feature ''f1'' Backlog True) ''/p'' None False
                 idle_world)"
  define W3 where "W3 = snd (resumeFeature ?E3 ''/p'' ''f1'' None idle_world)"
  define W4 where
    "W4 = snd (runFollowUpWork_try ?E4 ''/p'' ''f1'' ''fix the tests'' [] None ?w0)"
  have f1: "fst (runFeature ?E1 ''/p'' ''f1'' None False idle_world) = Inr True"
    by code_simp
  then have t1: "runFeature ?E1 ''/p'' ''f1'' None False idle_world = (Inr True, W1)"
    by (simp add: W1_def prod_eq_iff)
  have f2: "fst (startFeatureAsync_try ?E2 (demo_feature ''f1'' Backlog True) ''/p'' None
                   False idle_world) = Inr ?ok"
    by code_simp
  then have t2: "startFeatureAsync_try ?E2 (demo_feature ''f1'' Backlog True) ''/p'' None
                   False idle_world = (Inr ?ok, W2)"
    by (simp add: W2_def prod_eq_iff)
  have f3: "fst (resumeFeature ?E3 ''/p'' ''f1'' None idle_world) = Inr True"
    by code_simp
  then have t3: "resumeFeature ?E3 ''/p'' ''f1'' None idle_world = (Inr True, W3)"
    by (simp add: W3_def prod_eq_iff)
  have f4: "fst (runFollowUpWork_try ?E4 ''/p'' ''f1'' ''fix the tests'' [] None ?w0) =
              Inr ?ko"
    by code_simp
  then have t4: "runFollowUpWork_try ?E4 ''/p'' ''f1'' ''fix the tests'' [] None ?w0 =
                   (Inr ?ko, W4)"
    by (simp add: W4_def prod_eq_iff)
  have load: "loadFeatures (demo_env fs ok) tr = Inr fs" for fs ok tr
    by (simp add: demo_env_def)
  have skip: "f_skipTests (demo_feature i st sk) = sk" "f_id (demo_feature i st sk) = i"
    for i st sk
    by (simp_all add: demo_feature_def)
  have s1: "persisted_status (calls W1) ''f1'' None = Some Verified"
    using attempt_result_decides_status
            [where env = ?E1 and projectPath = "''/p''" and featureId = "''f1''"
               and sendToRenderer = None and useWorktrees = False and w = idle_world
               and ps = True and w' = W1]
    by (simp add: t1 load skip del: after_register)
  have s2: "persisted_status (calls W2) ''f1'' None = Some WaitingApproval"
    using attempt_result_decides_status
            [where env = ?E2 and projectPath = "''/p''"
               and feature = "demo_feature ''f1'' Backlog True"
               and sendToRenderer = None and useWorktrees = False and w = idle_world
               and r = ?ok and w' = W2]
    by (simp add: t2 skip del: after_register)
  have s3: "persisted_status (calls W3) ''f1'' None = Some WaitingApproval"
    using attempt_result_decides_status
            [where env = ?E3 and projectPath = "''/p''" and featureId = "''f1''"
               and sendToRenderer = None and w = idle_world and ps = True and w' = W3]
    by (simp add: t3 load skip del: after_register)
  have s4: "persisted_status (calls W4) ''f1'' None = Some WaitingApproval"
    using attempt_result_decides_status
            [where env = ?E4 and projectPath = "''/p''" and featureId = "''f1''"
               and prompt = "''fix the tests''" and imagePaths = "[]"
               and sendToRenderer = None and w = ?w0 and r = ?ko and w' = W4]
    by (simp add: t4 load skip del: after_register)
  show ?thesis
    using f1 f2 f3 f4 s1 s2 s3 s4 by (simp add: W1_def W2_def W3_def W4_def)
qed

section \<open>The retry loop of resumeFeature\<close>

lemma is_engine_call_sent [simp]: "filter is_engine_call (sent s ev p) = []"
  by (cases s) simp_all

lemma retry_iteration:
  assumes "\<And>tr. loadFeatures env tr = Inr (F tr)"
    and "\<And>tr. find (\<lambda>f. f_id f = featureId) (F tr) = Some (G tr)"
    and "\<And>tr. f_status (G tr) = InProgress"
    and "\<And>tr. writeToContextFile env tr = Inr ()"
    and "\<And>tr. readContextFile env tr = Inr (C tr)"
    and "\<And>tr. resumeFeatureWithContext env tr = Inr \<lparr>passes = False, res_message = M tr\<rparr>"
    and "\<not> passes finalResult" and "attempts < maxAttempts"
    and "delivers env sendToRenderer"
  shows "\<exists>c r. \<not> passes r
         \<and> resumeRetryLoop env projectPath featureId sendToRenderer feature attempts
             finalResult v =
           resumeRetryLoop env projectPath featureId sendToRenderer feature (Suc attempts) r
             (extended v
                (retry_calls projectPath featureId sendToRenderer feature (Suc attempts) c))"
  apply (subst resumeRetryLoop.simps)
  apply (simp add: assms await_apply bnd_await retry_calls_def)
  apply (rule exI, rule exI, rule conjI)
   defer
   apply (rule refl)
  apply simp
  done

lemma retries_exhausted:
  assumes "\<And>tr. loadFeatures env tr = Inr (F tr)"
    and "\<And>tr. find (\<lambda>f. f_id f = featureId) (F tr) = Some (G tr)"
    and "\<And>tr. f_status (G tr) = InProgress"
    and "\<And>tr. writeToContextFile env tr = Inr ()"
    and "\<And>tr. readContextFile env tr = Inr (C tr)"
    and "\<And>tr. resumeFeatureWithContext env tr = Inr \<lparr>passes = False, res_message = M tr\<rparr>"
    and failed: "\<not> passes finalResult"
    and d: "delivers env sendToRenderer"
  shows "\<exists>c1 c2 c3 r. \<not> passes r
         \<and> resumeRetryLoop env projectPath featureId sendToRenderer feature 0 finalResult v =
           (Inr r,
            extended v
              (retry_calls projectPath featureId sendToRenderer feature 1 c1
               @ retry_calls projectPath featureId sendToRenderer feature 2 c2
               @ retry_calls projectPath featureId sendToRenderer feature 3 c3))"
proof -
  note step = retry_iteration [OF assms(1-6) _ _ d, where projectPath = projectPath
      and feature = feature]
  let ?loop = "resumeRetryLoop env projectPath featureId sendToRenderer feature"
  let ?retry = "retry_calls projectPath featureId sendToRenderer feature"
  obtain c1 r1 where r1: "\<not> passes r1"
    and l1: "?loop 0 finalResult v = ?loop (Suc 0) r1 (extended v (?retry (Suc 0) c1))"
    using step [OF failed, of 0 v] by (auto simp: maxAttempts_def)
  obtain c2 r2 where r2: "\<not> passes r2"
    and l2: "?loop (Suc 0) r1 (extended v (?retry (Suc 0) c1)) =
             ?loop (Suc (Suc 0)) r2
               (extended v (?retry (Suc 0) c1 @ ?retry (Suc (Suc 0)) c2))"
    using step [OF r1, of "Suc 0" "extended v (?retry (Suc 0) c1)"]
    by (auto simp: maxAttempts_def)
  obtain c3 r3 where r3: "\<not> passes r3"
    and l3: "?loop (Suc (Suc 0)) r2
               (extended v (?retry (Suc 0) c1 @ ?retry (Suc (Suc 0)) c2)) =
             ?loop (Suc (Suc (Suc 0))) r3
               (extended v (?retry (Suc 0) c1 @ ?retry (Suc (Suc 0)) c2
                            @ ?retry (Suc (Suc (Suc 0))) c3))"
    using step [OF r2, of "Suc (Suc 0)"
                  "extended v (?retry (Suc 0) c1 @ ?retry (Suc (Suc 0)) c2)"]
    by (auto simp: maxAttempts_def)
  have stop: "?loop (Suc (Suc (Suc 0))) r3 u = (Inr r3, u)" for u
    by (subst resumeRetryLoop.simps) (simp add: maxAttempts_def)
  have "?loop 0 finalResult v =
          (Inr r3,
           extended v (?retry (Suc 0) c1 @ ?retry (Suc (Suc 0)) c2
                       @ ?retry (Suc (Suc (Suc 0))) c3))"
    using l1 l2 l3 stop by (simp only:)
  then have "?loop 0 finalResult v =
          (Inr r3, extended v (?retry 1 c1 @ ?retry 2 c2 @ ?retry 3 c3))"
    by (simp only: One_nat_def numeral_2_eq_2 numeral_3_eq_3)
  with r3 show ?thesis by blast
qed

lemma resumeFeature_try_exhausted:
  assumes "\<And>tr. loadFeatures env tr = Inr (F tr)"
    and "\<And>tr. find (\<lambda>f. f_id f = featureId) (F tr) = Some (G tr)"
    and "\<And>tr. f_status (G tr) = InProgress"
    and "\<And>tr. writeToContextFile env tr = Inr ()"
    and "\<And>tr. readContextFile env tr = Inr (C tr)"
    and "\<And>tr. resumeFeatureWithContext env tr = Inr \<lparr>passes = False, res_message = M tr\<rparr>"
    and "\<And>tr. updateFeatureStatus env tr = Inr ()"
    and d: "delivers env sendToRenderer"
  shows "\<exists>c0 c1 c2 c3 m.
           resumeFeature_try env projectPath featureId sendToRenderer v =
             (Inr False,
              extended v
                (LoadFeatures projectPath
                 # sent sendToRenderer
                     (FeatureStart (f_id (G (after v [LoadFeatures projectPath])))
                        (G (after v [LoadFeatures projectPath]))) projectPath
                 @ [ReadContextFile projectPath featureId,
                    ResumeFeatureWithContext (G (after v [LoadFeatures projectPath]))
                      projectPath c0]
                 @ retry_calls projectPath featureId sendToRenderer
                     (G (after v [LoadFeatures projectPath])) 1 c1
                 @ retry_calls projectPath featureId sendToRenderer
                     (G (after v [LoadFeatures projectPath])) 2 c2
                 @ retry_calls projectPath featureId sendToRenderer
                     (G (after v [LoadFeatures projectPath])) 3 c3
                 @ [UpdateFeatureStatus featureId WaitingApproval projectPath None None]
                 @ sent sendToRenderer
                     (FeatureComplete (f_id (G (after v [LoadFeatures projectPath]))) False m)
                     projectPath))"
proof -
  let ?feature = "G (after v [LoadFeatures projectPath])"
  let ?loop = "resumeRetryLoop env projectPath featureId sendToRenderer ?feature"
  let ?retry = "retry_calls projectPath featureId sendToRenderer ?feature"
  have "\<forall>fr u. \<exists>c1 c2 c3 r. \<not> passes fr \<longrightarrow>
          \<not> passes r \<and> ?loop 0 fr u = (Inr r, extended u (?retry 1 c1 @ ?retry 2 c2 @ ?retry 3 c3))"
    using retries_exhausted [OF assms(1-6) _ d, where projectPath = projectPath
        and feature = ?feature]
    by blast
  then obtain K1 K2 K3 R where loop:
    "\<And>fr u. \<not> passes fr \<Longrightarrow>
        ?loop 0 fr u =
          (Inr (R fr u),
           extended u (?retry 1 (K1 fr u) @ ?retry 2 (K2 fr u) @ ?retry 3 (K3 fr u)))"
    and failed: "\<And>fr u. \<not> passes fr \<Longrightarrow> \<not> passes (R fr u)"
    by metis
  show ?thesis
    unfolding resumeFeature_try_def
    apply (simp add: assms loop failed await_apply bnd_await)
    apply (intro exI)
    apply (rule refl)
    done
qed

lemma new_calls_registered [simp]:
  "new_calls w (release k (extended (register k p s w) cs)) = cs"
  by (simp add: new_calls_def calls_def after_def extended_def comp_def)

text \<open>
  C5. Let the feature be free to start, let no collaborator throw (the store, the context
  manager, the engine, nor the renderer callback), let every load of the
  features find the feature with status in_progress, and let every engine invocation
  answer \<open>passes: false\<close>. Then resumeFeature makes exactly four engine invocations: the
  initial one and three retries. Each retry is preceded by the reload of the features, the
  retry marker (numbered 1, 2, 3) written to the context file and the progress event, and
  is given the context file as read back. After the third retry resumeFeature sets the
  status to waiting_approval, sends the completion event with \<open>passes: false\<close>, returns
  \<open>{success: true, passes: false}\<close> and releases the registry entry.
\<close>

theorem resumeFeature_retries_three_times:
  fixes env :: env and projectPath :: string and sendToRenderer :: sink
  assumes "\<not> has (runningFeatures w) featureId"
    and "\<And>tr. loadFeatures env tr = Inr (F tr)"
    and "\<And>tr. find (\<lambda>f. f_id f = featureId) (F tr) = Some (G tr)"
    and "\<And>tr. f_status (G tr) = InProgress"
    and "\<And>tr. writeToContextFile env tr = Inr ()"
    and "\<And>tr. readContextFile env tr = Inr (C tr)"
    and "\<And>tr. resumeFeatureWithContext env tr = Inr \<lparr>passes = False, res_message = M tr\<rparr>"
    and "\<And>tr. updateFeatureStatus env tr = Inr ()"
    and "\<And>tr. rendererCallback env tr = Inr ()"
  defines "w0 \<equiv> register featureId projectPath sendToRenderer w"
  defines "feature \<equiv> G (after w0 [LoadFeatures projectPath])"
  shows "(\<exists>c0 c1 c2 c3 m.
            resumeFeature env projectPath featureId sendToRenderer w =
              (Inr False,
               release featureId
                 (extended w0
                    (LoadFeatures projectPath
                     # sent sendToRenderer (FeatureStart (f_id feature) feature) projectPath
                     @ [ReadContextFile projectPath featureId,
                        ResumeFeatureWithContext feature projectPath c0]
                     @ retry_calls projectPath featureId sendToRenderer feature 1 c1
                     @ retry_calls projectPath featureId sendToRenderer feature 2 c2
                     @ retry_calls projectPath featureId sendToRenderer feature 3 c3
                     @ [UpdateFeatureStatus featureId WaitingApproval projectPath None None]
                     @ sent sendToRenderer (FeatureComplete (f_id feature) False m)
                         projectPath))))
   \<and> length (filter is_engine_call
         (new_calls w (snd (resumeFeature env projectPath featureId sendToRenderer w)))) = 4
   \<and> persisted_status
         (calls (snd (resumeFeature env projectPath featureId sendToRenderer w)))
         featureId None = Some WaitingApproval"
proof -
  let ?retry = "retry_calls projectPath featureId sendToRenderer feature"
  have d: "delivers env sendToRenderer"
    using assms(9) by (simp add: delivers_def)
  obtain c0 c1 c2 c3 m where tried:
    "resumeFeature_try env projectPath featureId sendToRenderer w0 =
       (Inr False,
        extended w0
          (LoadFeatures projectPath
           # sent sendToRenderer (FeatureStart (f_id feature) feature) projectPath
           @ [ReadContextFile projectPath featureId,
              ResumeFeatureWithContext feature projectPath c0]
           @ ?retry 1 c1 @ ?retry 2 c2 @ ?retry 3 c3
           @ [UpdateFeatureStatus featureId WaitingApproval projectPath None None]
           @ sent sendToRenderer (FeatureComplete (f_id feature) False m) projectPath))"
    unfolding feature_def
    using resumeFeature_try_exhausted
            [OF assms(2-8) d, where projectPath = projectPath and v = w0]
    by blast
  have whole:
    "resumeFeature env projectPath featureId sendToRenderer w =
       (Inr False,
        release featureId
          (extended w0
             (LoadFeatures projectPath
              # sent sendToRenderer (FeatureStart (f_id feature) feature) projectPath
              @ [ReadContextFile projectPath featureId,
                 ResumeFeatureWithContext feature projectPath c0]
              @ ?retry 1 c1 @ ?retry 2 c2 @ ?retry 3 c3
              @ [UpdateFeatureStatus featureId WaitingApproval projectPath None None]
              @ sent sendToRenderer (FeatureComplete (f_id feature) False m) projectPath)))"
    using assms(1) tried
    by (simp add: resumeFeature_def try_finally_def try_catch_def w0_def)
  have count: "length (filter is_engine_call
         (new_calls w (snd (resumeFeature env projectPath featureId sendToRenderer w)))) = 4"
    by (simp add: whole) (simp add: w0_def retry_calls_def)
  have last: "persisted_status
         (calls (snd (resumeFeature env projectPath featureId sendToRenderer w)))
         featureId None = Some WaitingApproval"
    by (simp add: whole persisted_status_append retry_calls_def)
  from whole count last show ?thesis by blast
qed

theorem resumeFeature_retries_witness:
  "\<not> has (runningFeatures idle_world) ''f1''
   \<and> (\<forall>tr. resumeFeatureWithContext (demo_env [demo_feature ''f1'' InProgress False] False) tr
            = Inr \<lparr>passes = False, res_message = ''finished''\<rparr>)
   \<and> (\<forall>tr. rendererCallback (demo_env [demo_feature ''f1'' InProgress False] False) tr
            = Inr ())
   \<and> fst (resumeFeature (demo_env [demo_feature ''f1'' InProgress False] False)
            ''/p'' ''f1'' (Some 0) idle_world) = Inr False
   \<and> length (filter is_engine_call
         (new_calls idle_world
            (snd (resumeFeature (demo_env [demo_feature ''f1'' InProgress False] False)
                    ''/p'' ''f1'' (Some 0) idle_world)))) = 4
   \<and> persisted_status
         (calls (snd (resumeFeature (demo_env [demo_feature ''f1'' InProgress False] False)
                        ''/p'' ''f1'' (Some 0) idle_world))) ''f1'' None =
       Some WaitingApproval"
proof -
  let ?f = "demo_feature ''f1'' InProgress False"
  let ?E = "demo_env [?f] False"
  have free: "\<not> has (runningFeatures idle_world) ''f1''"
    by code_simp
  have h1: "loadFeatures ?E tr = Inr ((\<lambda>tr. [?f]) tr)" for tr
    by (simp add: demo_env_def)
  have h2: "find (\<lambda>f. f_id f = ''f1'') ((\<lambda>tr. [?f]) tr) = Some ((\<lambda>tr. ?f) tr)" for tr :: "entry list"
    by (simp add: demo_feature_def)
  have h3: "f_status ((\<lambda>tr. ?f) tr) = InProgress" for tr :: "entry list"
    by (simp add: demo_feature_def)
  have h4: "writeToContextFile ?E tr = Inr ()" for tr
    by (simp add: demo_env_def)
  have h5: "readContextFile ?E tr = Inr ((\<lambda>tr. [Raw ''log'']) tr)" for tr
    by (simp add: demo_env_def)
  have h6: "resumeFeatureWithContext ?E tr =
              Inr \<lparr>passes = False, res_message = (\<lambda>tr. ''finished'') tr\<rparr>" for tr
    by (simp add: demo_env_def)
  have h7: "updateFeatureStatus ?E tr = Inr ()" for tr
    by (simp add: demo_env_def)
  have h8: "rendererCallback ?E tr = Inr ()" for tr
    by (simp add: demo_env_def)
  show ?thesis
    using free h6 h8
      resumeFeature_retries_three_times
        [where w = idle_world and featureId = "''f1''" and env = ?E
           and F = "\<lambda>tr. [?f]" and G = "\<lambda>tr. ?f" and C = "\<lambda>tr. [Raw ''log'']"
           and M = "\<lambda>tr. ''finished''" and projectPath = "''/p''"
           and sendToRenderer = "Some 0",
         OF free h1 h2 h3 h4 h5 h6 h7 h8]
    by auto
qed

end
